theory Spec2Isabelle
  imports Main "HOL-Library.AList"
begin

section \<open>Values, objects and failures\<close>

text \<open>
  The module under verification is \<^verbatim>\<open>cloud/amazon/ec2_asg_copy.py\<close>: one function
  \<^verbatim>\<open>copy_auto_scaling_group(as_connection, cloudwatch_connection, module)\<close> and the
  entry point \<^verbatim>\<open>main()\<close>. Everything the function does is a sequence of calls on
  the two connection objects, so the model threads the provider's state and a log of the
  calls made, and every raise of the source is a value of \<open>failure\<close>.
\<close>

text \<open>The Python values that occur in \<^verbatim>\<open>module.params\<close>.\<close>

datatype pyval = PNone | PStr string | PBool bool | PInt int

text \<open>Truth value of an object in a condition (\<^verbatim>\<open>if load_balancers\<close>).\<close>

fun py_truthy :: "pyval \<Rightarrow> bool" where
  "py_truthy PNone = False"
| "py_truthy (PStr s) = (s \<noteq> [])"
| "py_truthy (PBool b) = b"
| "py_truthy (PInt i) = (i \<noteq> 0)"

definition digit_char :: "nat \<Rightarrow> char" where
  "digit_char n = ''0123456789'' ! n"

function str_nat :: "nat \<Rightarrow> string" where
  "str_nat n = (if n < 10 then [digit_char n] else str_nat (n div 10) @ [digit_char (n mod 10)])"
  by pat_completeness auto
termination
  by (relation "measure id") auto

text \<open>\<^verbatim>\<open>'{}'.format(v)\<close> and \<^verbatim>\<open>str(v)\<close>.\<close>

fun py_format :: "pyval \<Rightarrow> string" where
  "py_format PNone = ''None''"
| "py_format (PStr s) = s"
| "py_format (PBool b) = (if b then ''True'' else ''False'')"
| "py_format (PInt i) = (if i < 0 then CHR ''-'' # str_nat (nat (- i)) else str_nat (nat i))"

text \<open>\<^verbatim>\<open>module.params\<close> is a dictionary; \<^verbatim>\<open>params.get(k)\<close> is \<^verbatim>\<open>None\<close> for a missing key.\<close>

type_synonym params = "string \<rightharpoonup> pyval"

definition params_get :: "params \<Rightarrow> string \<Rightarrow> pyval" where
  "params_get ps k = (case ps k of None \<Rightarrow> PNone | Some v \<Rightarrow> v)"

datatype launch_configuration = LaunchConfiguration string

text \<open>
  An \<^verbatim>\<open>AutoScalingGroup\<close> object, with the attributes the source passes to the
  constructor. The attribute \<open>name\<close>, which the source reads as \<^verbatim>\<open>as_group.name\<close>, is
  the one the constructor receives as \<^verbatim>\<open>group_name\<close>.
\<close>

record asg =
  name :: pyval
  load_balancers :: "pyval list"
  availability_zones :: "string list"
  launch_config :: launch_configuration
  min_size :: int
  max_size :: int
  desired_capacity :: int
  vpc_zone_identifier :: string
  connection :: string
  tags :: "(string \<times> string) list"
  health_check_period :: int
  health_check_type :: string
  default_cooldown :: int
  termination_policies :: "string list"

text \<open>
  A scaling policy: the source writes its attribute \<^verbatim>\<open>as_group\<close> and reads
  \<^verbatim>\<open>scaling_adjustment\<close>.
\<close>

record scaling_policy =
  policy_name :: string
  as_group :: pyval
  scaling_adjustment :: int

text \<open>An alarm; \<open>dimensions\<close> is a dictionary, assigned by key.\<close>

record alarm =
  alarm_name :: string
  dimensions :: "(string \<times> pyval) list"

type_synonym properties = "(string \<times> pyval) list"

text \<open>
  How a run can end other than by returning: \<open>FailJson\<close> is \<^verbatim>\<open>module.fail_json(msg=...)\<close>,
  which leaves the program; the others are the exceptions of the same name.
\<close>

datatype failure =
    BotoServerError string
  | FailJson string
  | IndexError
  | NameError string
  | TypeError string

section \<open>The provider\<close>

text \<open>
  The two connection objects belong to the provider's library, which is not part of the
  module; they are a parameter. A call either returns or raises \<^verbatim>\<open>BotoServerError\<close>,
  here \<open>Inl\<close> with the text of the error; \<open>'s\<close> is the state of the account, which
  the three creating calls change.
\<close>

record 's provider =
  get_all_groups :: "'s \<Rightarrow> pyval list \<Rightarrow> string + asg list"
  get_all_policies :: "'s \<Rightarrow> pyval \<Rightarrow> string + scaling_policy list"
  get_all_launch_configurations :: "'s \<Rightarrow> pyval list \<Rightarrow> string + launch_configuration list"
  create_auto_scaling_group :: "'s \<Rightarrow> asg \<Rightarrow> string + 's"
  create_scaling_policy :: "'s \<Rightarrow> scaling_policy \<Rightarrow> string + 's"
  describe_alarms :: "'s \<Rightarrow> string list \<Rightarrow> string + alarm list"
  create_alarm :: "'s \<Rightarrow> alarm \<Rightarrow> string + 's"

text \<open>The calls the module makes, in the order it makes them.\<close>

datatype call =
    GetAllGroups "pyval list"
  | GetAllPolicies pyval
  | GetAllLaunchConfigurations "pyval list"
  | CreateAutoScalingGroup asg
  | CreateScalingPolicy scaling_policy
  | DescribeAlarms "string list"
  | CreateAlarm alarm

record 's world =
  cloud :: 's
  calls :: "call list"

definition call_read :: "call \<Rightarrow> string + 'a \<Rightarrow> 's world \<Rightarrow> (failure + 'a) \<times> 's world" where
  "call_read c r w =
     (case r of Inl m \<Rightarrow> Inl (BotoServerError m) | Inr a \<Rightarrow> Inr a, w\<lparr>calls := calls w @ [c]\<rparr>)"

definition call_write :: "call \<Rightarrow> string + 's \<Rightarrow> 's world \<Rightarrow> (failure + unit) \<times> 's world" where
  "call_write c r w =
     (case r of
        Inl m \<Rightarrow> (Inl (BotoServerError m), w\<lparr>calls := calls w @ [c]\<rparr>)
      | Inr s' \<Rightarrow> (Inr (), \<lparr>cloud = s', calls = calls w @ [c]\<rparr>))"

definition as_get_all_groups ::
  "'s provider \<Rightarrow> pyval list \<Rightarrow> 's world \<Rightarrow> (failure + asg list) \<times> 's world" where
  "as_get_all_groups P names w = call_read (GetAllGroups names) (get_all_groups P (cloud w) names) w"

definition as_get_all_policies ::
  "'s provider \<Rightarrow> pyval \<Rightarrow> 's world \<Rightarrow> (failure + scaling_policy list) \<times> 's world" where
  "as_get_all_policies P g w = call_read (GetAllPolicies g) (get_all_policies P (cloud w) g) w"

definition as_get_all_launch_configurations ::
  "'s provider \<Rightarrow> pyval list \<Rightarrow> 's world \<Rightarrow> (failure + launch_configuration list) \<times> 's world" where
  "as_get_all_launch_configurations P names w =
     call_read (GetAllLaunchConfigurations names) (get_all_launch_configurations P (cloud w) names) w"

definition as_create_auto_scaling_group ::
  "'s provider \<Rightarrow> asg \<Rightarrow> 's world \<Rightarrow> (failure + unit) \<times> 's world" where
  "as_create_auto_scaling_group P ag w =
     call_write (CreateAutoScalingGroup ag) (create_auto_scaling_group P (cloud w) ag) w"

definition as_create_scaling_policy ::
  "'s provider \<Rightarrow> scaling_policy \<Rightarrow> 's world \<Rightarrow> (failure + unit) \<times> 's world" where
  "as_create_scaling_policy P p w =
     call_write (CreateScalingPolicy p) (create_scaling_policy P (cloud w) p) w"

definition cw_describe_alarms ::
  "'s provider \<Rightarrow> string list \<Rightarrow> 's world \<Rightarrow> (failure + alarm list) \<times> 's world" where
  "cw_describe_alarms P names w = call_read (DescribeAlarms names) (describe_alarms P (cloud w) names) w"

definition cw_create_alarm ::
  "'s provider \<Rightarrow> alarm \<Rightarrow> 's world \<Rightarrow> (failure + unit) \<times> 's world" where
  "cw_create_alarm P a w = call_write (CreateAlarm a) (create_alarm P (cloud w) a) w"

section \<open>Names the module does not bind\<close>

text \<open>
  The function refers to five names that the file neither defines, assigns nor imports by
  name: \<^verbatim>\<open>wait_for_new_inst\<close>, \<^verbatim>\<open>connection\<close>, \<^verbatim>\<open>desired_capacity\<close>, \<^verbatim>\<open>wait_for_elb\<close> and
  \<^verbatim>\<open>get_properties\<close>. They are looked up among the module's globals when the line runs.
  The model takes their bindings as a parameter: \<open>None\<close> is an unbound name, and
  reading it raises \<^verbatim>\<open>NameError\<close>. A bound helper runs on the account and returns or
  fails.
\<close>

record 's globals =
  wait_for_new_inst ::
    "(params \<Rightarrow> pyval \<Rightarrow> pyval \<Rightarrow> pyval \<Rightarrow> pyval \<Rightarrow> string \<Rightarrow> 's \<Rightarrow> (failure + unit) \<times> 's) option"
  connection_global :: "pyval option"
  desired_capacity_global :: "pyval option"
  wait_for_elb :: "(params \<Rightarrow> pyval \<Rightarrow> 's \<Rightarrow> (failure + unit) \<times> 's) option"
  get_properties :: "(asg \<Rightarrow> failure + properties) option"

text \<open>The file as it stands binds none of them.\<close>

definition unbound_globals :: "'s globals" where
  "unbound_globals =
     \<lparr>wait_for_new_inst = None, connection_global = None, desired_capacity_global = None,
      wait_for_elb = None, get_properties = None\<rparr>"

section \<open>copy_auto_scaling_group\<close>

text \<open>
  Lines 119 to 126, run when \<^verbatim>\<open>wait_for_instances is True\<close>. Python evaluates the callee,
  then the arguments from left to right, then calls.
\<close>

definition wait_calls ::
  "'s globals \<Rightarrow> params \<Rightarrow> pyval \<Rightarrow> pyval \<Rightarrow> 's world \<Rightarrow> (failure + unit) \<times> 's world" where
  "wait_calls G module_params group_name wait_timeout w =
     (case wait_for_new_inst G of
        None \<Rightarrow> (Inl (NameError ''wait_for_new_inst''), w)
      | Some wait_inst \<Rightarrow>
     (case connection_global G of
        None \<Rightarrow> (Inl (NameError ''connection''), w)
      | Some conn \<Rightarrow>
     (case desired_capacity_global G of
        None \<Rightarrow> (Inl (NameError ''desired_capacity''), w)
      | Some desired \<Rightarrow>
     (case wait_inst module_params conn group_name wait_timeout desired ''viable_instances'' (cloud w) of
        (Inl e, s1) \<Rightarrow> (Inl e, w\<lparr>cloud := s1\<rparr>)
      | (Inr _, s1) \<Rightarrow>
     (case wait_for_elb G of
        None \<Rightarrow> (Inl (NameError ''wait_for_elb''), w\<lparr>cloud := s1\<rparr>)
      | Some wait_elb \<Rightarrow>
     (case wait_elb module_params group_name s1 of
        (Inl e, s2) \<Rightarrow> (Inl e, w\<lparr>cloud := s2\<rparr>)
      | (Inr _, s2) \<Rightarrow> (Inr (), w\<lparr>cloud := s2\<rparr>)))))))"

text \<open>
  The loop of lines 131 to 141 over \<^verbatim>\<open>source_policies\<close>; \<open>new_name\<close> is
  \<^verbatim>\<open>as_group.name\<close>. It stops at the first call that raises.
\<close>

fun copy_policies ::
  "'s provider \<Rightarrow> pyval \<Rightarrow> pyval \<Rightarrow> scaling_policy list \<Rightarrow> 's world \<Rightarrow> (failure + unit) \<times> 's world" where
  "copy_policies P source_asg_name new_name [] w = (Inr (), w)"
| "copy_policies P source_asg_name new_name (policy0 # rest) w =
     (let policy = policy0\<lparr>as_group := new_name\<rparr> in
      case as_create_scaling_policy P policy w of
        (Inl e, w1) \<Rightarrow> (Inl e, w1)
      | (Inr _, w1) \<Rightarrow>
     (let alarm_name =
            (if scaling_adjustment policy > 0
             then py_format source_asg_name @ ''-ScaleUp''
             else py_format source_asg_name @ ''-ScaleDown'') in
      case cw_describe_alarms P [alarm_name] w1 of
        (Inl e, w2) \<Rightarrow> (Inl e, w2)
      | (Inr [], w2) \<Rightarrow> (Inl IndexError, w2)
      | (Inr (alarm0 # _), w2) \<Rightarrow>
     (let alarm = alarm0\<lparr>dimensions :=
                   AList.update ''AutoScalingGroupName'' new_name (dimensions alarm0)\<rparr> in
      case cw_create_alarm P alarm w2 of
        (Inl e, w3) \<Rightarrow> (Inl e, w3)
      | (Inr _, w3) \<Rightarrow> copy_policies P source_asg_name new_name rest w3)))"

text \<open>
  The body of the inner \<^verbatim>\<open>try\<close>, lines 117 to 144; \<open>as_group_obj\<close> is the local
  variable \<^verbatim>\<open>as_group\<close>.
\<close>

definition create_and_copy ::
  "'s provider \<Rightarrow> 's globals \<Rightarrow> params \<Rightarrow> scaling_policy list \<Rightarrow> asg \<Rightarrow> 's world
     \<Rightarrow> (failure + bool \<times> properties) \<times> 's world" where
  "create_and_copy P G module_params source_policies ag w =
     (let source_asg_name = params_get module_params ''source_asg_name'';
          group_name = params_get module_params ''group_name'';
          wait_for_instances = params_get module_params ''wait_for_instances'';
          wait_timeout = params_get module_params ''wait_timeout'' in
      case as_create_auto_scaling_group P ag w of
        (Inl e, w1) \<Rightarrow> (Inl e, w1)
      | (Inr _, w1) \<Rightarrow>
     (case (if wait_for_instances = PBool True
            then wait_calls G module_params group_name wait_timeout w1
            else (Inr (), w1)) of
        (Inl e, w2) \<Rightarrow> (Inl e, w2)
      | (Inr _, w2) \<Rightarrow>
     (case as_get_all_groups P [group_name] w2 of
        (Inl e, w3) \<Rightarrow> (Inl e, w3)
      | (Inr [], w3) \<Rightarrow> (Inl IndexError, w3)
      | (Inr (as_group_obj # _), w3) \<Rightarrow>
     (case get_properties G of
        None \<Rightarrow> (Inl (NameError ''get_properties''), w3)
      | Some props \<Rightarrow>
     (case props as_group_obj of
        Inl e \<Rightarrow> (Inl e, w3)
      | Inr asg_properties \<Rightarrow>
     (case copy_policies P source_asg_name (name as_group_obj) source_policies w3 of
        (Inl e, w4) \<Rightarrow> (Inl e, w4)
      | (Inr _, w4) \<Rightarrow> (Inr (True, asg_properties), w4)))))))"

text \<open>
  Lines 99 to 114, the group that is submitted: \<open>load_balancers_param\<close> is the local
  variable \<^verbatim>\<open>load_balancers\<close>, \<open>lc\<close> the local variable \<^verbatim>\<open>launch_config\<close>.
\<close>

definition new_group :: "pyval \<Rightarrow> pyval \<Rightarrow> asg \<Rightarrow> launch_configuration \<Rightarrow> asg" where
  "new_group group_name load_balancers_param source_group lc =
     \<lparr>name = group_name,
      load_balancers =
        (if py_truthy load_balancers_param then [load_balancers_param]
         else load_balancers source_group),
      availability_zones = availability_zones source_group,
      launch_config = lc,
      min_size = min_size source_group,
      max_size = max_size source_group,
      desired_capacity = desired_capacity source_group,
      vpc_zone_identifier = vpc_zone_identifier source_group,
      connection = connection source_group,
      tags = tags source_group,
      health_check_period = health_check_period source_group,
      health_check_type = health_check_type source_group,
      default_cooldown = default_cooldown source_group,
      termination_policies = termination_policies source_group\<rparr>"

text \<open>
  The whole function. The outer \<^verbatim>\<open>try\<close> of line 87 has neither an \<^verbatim>\<open>except\<close> nor a
  \<^verbatim>\<open>finally\<close> clause (the file does not parse as it stands); it is read as a block that
  catches nothing, so nothing but the inner \<^verbatim>\<open>except BotoServerError\<close> catches
  anything: the lookups of lines 89 to 97 raise to the caller, and a \<^verbatim>\<open>BotoServerError\<close>
  of lines 117 to 144 becomes \<^verbatim>\<open>fail_json(msg=str(e))\<close>. Line 83 reads \<^verbatim>\<open>load_balancers\<close> from the key
  \<^verbatim>\<open>launch_config_name\<close>. The run starts on the account \<open>s\<close> with an empty log.
\<close>

definition copy_auto_scaling_group ::
  "'s provider \<Rightarrow> 's globals \<Rightarrow> params \<Rightarrow> 's \<Rightarrow> (failure + bool \<times> properties) \<times> 's world" where
  "copy_auto_scaling_group P G module_params s =
     (let source_asg_name = params_get module_params ''source_asg_name'';
          group_name = params_get module_params ''group_name'';
          launch_config_name = params_get module_params ''launch_config_name'';
          load_balancers_param = params_get module_params ''launch_config_name'' in
      case as_get_all_groups P [source_asg_name] \<lparr>cloud = s, calls = []\<rparr> of
        (Inl e, w1) \<Rightarrow> (Inl e, w1)
      | (Inr groups, w1) \<Rightarrow>
          if length groups = 1 then
            (let source_group = groups ! 0 in
             case as_get_all_policies P source_asg_name w1 of
               (Inl e, w2) \<Rightarrow> (Inl e, w2)
             | (Inr source_policies, w2) \<Rightarrow>
            (case as_get_all_launch_configurations P [launch_config_name] w2 of
               (Inl e, w3) \<Rightarrow> (Inl e, w3)
             | (Inr [], w3) \<Rightarrow> (Inl IndexError, w3)
             | (Inr (lc # _), w3) \<Rightarrow>
            (let ag = new_group group_name load_balancers_param source_group lc in
             case create_and_copy P G module_params source_policies ag w3 of
               (Inl (BotoServerError m), w4) \<Rightarrow> (Inl (FailJson m), w4)
             | r \<Rightarrow> r)))
          else
            (Inl (FailJson (''Unable to find source group '' @ py_format source_asg_name)), w1))"

section \<open>main\<close>

text \<open>
  What \<^verbatim>\<open>main()\<close> takes from outside the file: the common argument specification
  \<^verbatim>\<open>ec2_argument_spec()\<close> (its keys, each with its \<^verbatim>\<open>required\<close> flag), the constructor
  \<^verbatim>\<open>AnsibleModule\<close>, which reads the arguments the caller supplied against a
  specification and either fails with a message or yields \<^verbatim>\<open>module.params\<close>, the flag
  \<^verbatim>\<open>HAS_BOTO\<close>, and the two connection helpers. \<^verbatim>\<open>connect_to_aws\<close> raises
  \<^verbatim>\<open>NoAuthHandlerFound\<close> (\<open>Inl\<close> with its text) or returns a connection object or
  \<^verbatim>\<open>None\<close> (\<open>Inr\<close> of whether it is an object).
\<close>

datatype service = Autoscale | Cloudwatch

record main_env =
  ec2_argument_spec :: "(string \<times> bool) list"
  AnsibleModule :: "(string \<times> bool) list \<Rightarrow> (string \<times> pyval) list \<Rightarrow> string + params"
  HAS_BOTO :: bool
  get_aws_connection_info :: "params \<Rightarrow> pyval \<times> pyval \<times> params"
  connect_to_aws :: "service \<Rightarrow> pyval \<Rightarrow> params \<Rightarrow> string + bool"

text \<open>Lines 154 to 158: the common specification, updated with the three keys of the module.\<close>

definition argument_spec :: "main_env \<Rightarrow> (string \<times> bool) list" where
  "argument_spec E =
     AList.update ''name'' True
       (AList.update ''source_asg_name'' True
         (AList.update ''region'' True (ec2_argument_spec E)))"

text \<open>
  \<^verbatim>\<open>main()\<close> on the arguments \<open>args\<close> supplied by the caller and the account \<open>s\<close>.
  \<^verbatim>\<open>exit_json(changed=True, **new_asg_properties)\<close> raises \<^verbatim>\<open>TypeError\<close> when the
  properties have a key \<^verbatim>\<open>changed\<close> of their own.
\<close>

definition main ::
  "main_env \<Rightarrow> 's provider \<Rightarrow> 's globals \<Rightarrow> (string \<times> pyval) list \<Rightarrow> 's
     \<Rightarrow> (failure + properties) \<times> 's world" where
  "main E P G args s =
     (let w0 = \<lparr>cloud = s, calls = []\<rparr> in
      case AnsibleModule E (argument_spec E) args of
        Inl m \<Rightarrow> (Inl (FailJson m), w0)
      | Inr module_params \<Rightarrow>
          if \<not> HAS_BOTO E then (Inl (FailJson ''boto required for this module''), w0)
          else
            (case get_aws_connection_info E module_params of
               (region, ec2_url, aws_connect_params) \<Rightarrow>
            (case connect_to_aws E Autoscale region aws_connect_params of
               Inl m \<Rightarrow> (Inl (FailJson m), w0)
             | Inr as_connection \<Rightarrow>
            (case connect_to_aws E Cloudwatch region aws_connect_params of
               Inl m \<Rightarrow> (Inl (FailJson m), w0)
             | Inr cloudwatch_connection \<Rightarrow>
                 if \<not> as_connection \<or> \<not> cloudwatch_connection
                 then (Inl (FailJson (''failed to connect to AWS for the given region: ''
                                        @ py_format region)), w0)
                 else
                   (case copy_auto_scaling_group P G module_params s of
                      (Inl e, w) \<Rightarrow> (Inl e, w)
                    | (Inr (changed, new_asg_properties), w) \<Rightarrow>
                        if ''changed'' \<in> fst ` set new_asg_properties
                        then (Inl (TypeError ''changed''), w)
                        else (Inr ((''changed'', PBool True) # new_asg_properties), w))))))"

section \<open>An account in memory\<close>

text \<open>
  A provider to run the model on: the account is four lists, a lookup filters by name, a
  creation appends, and creating a group under a name that exists is rejected. It stands
  for the parameter \<open>P\<close> wherever the functions are evaluated on concrete input.
\<close>

record account =
  groups_of :: "asg list"
  policies_of :: "scaling_policy list"
  launch_configurations_of :: "launch_configuration list"
  alarms_of :: "alarm list"

definition memory_provider :: "account provider" where
  "memory_provider =
     \<lparr>get_all_groups = (\<lambda>s names. Inr (filter (\<lambda>g. name g \<in> set names) (groups_of s))),
      get_all_policies = (\<lambda>s g. Inr (filter (\<lambda>p. as_group p = g) (policies_of s))),
      get_all_launch_configurations =
        (\<lambda>s names. Inr (filter (\<lambda>l. case l of LaunchConfiguration n \<Rightarrow> PStr n \<in> set names)
                           (launch_configurations_of s))),
      create_auto_scaling_group =
        (\<lambda>s ag. if name ag \<in> set (map name (groups_of s))
                then Inl ''AlreadyExists''
                else Inr (s\<lparr>groups_of := groups_of s @ [ag]\<rparr>)),
      create_scaling_policy = (\<lambda>s p. Inr (s\<lparr>policies_of := policies_of s @ [p]\<rparr>)),
      describe_alarms = (\<lambda>s names. Inr (filter (\<lambda>a. alarm_name a \<in> set names) (alarms_of s))),
      create_alarm = (\<lambda>s a. Inr (s\<lparr>alarms_of := alarms_of s @ [a]\<rparr>))\<rparr>"

text \<open>The account of the example: one group, its two policies and alarms, two launch configurations.\<close>

definition asg_prod :: asg where
  "asg_prod =
     \<lparr>name = PStr ''asg-prod'', load_balancers = [PStr ''elb-prod''],
      availability_zones = [''us-east-1a'', ''us-east-1b''],
      launch_config = LaunchConfiguration ''lc-old'',
      min_size = 2, max_size = 10, desired_capacity = 4,
      vpc_zone_identifier = ''subnet-1'', connection = ''autoscale'',
      tags = [(''env'', ''prod'')], health_check_period = 300, health_check_type = ''ELB'',
      default_cooldown = 60, termination_policies = [''Default'']\<rparr>"

definition policy_up :: scaling_policy where
  "policy_up = \<lparr>policy_name = ''up'', as_group = PStr ''asg-prod'', scaling_adjustment = 10\<rparr>"

definition policy_down :: scaling_policy where
  "policy_down = \<lparr>policy_name = ''down'', as_group = PStr ''asg-prod'', scaling_adjustment = - 10\<rparr>"

definition alarm_up :: alarm where
  "alarm_up = \<lparr>alarm_name = ''asg-prod-ScaleUp'',
               dimensions = [(''AutoScalingGroupName'', PStr ''asg-prod'')]\<rparr>"

definition alarm_down :: alarm where
  "alarm_down = \<lparr>alarm_name = ''asg-prod-ScaleDown'',
                 dimensions = [(''AutoScalingGroupName'', PStr ''asg-prod'')]\<rparr>"

definition prod_account :: account where
  "prod_account =
     \<lparr>groups_of = [asg_prod], policies_of = [policy_up, policy_down],
      launch_configurations_of = [LaunchConfiguration ''lc-old'', LaunchConfiguration ''lc-new''],
      alarms_of = [alarm_up, alarm_down]\<rparr>"

text \<open>Globals in which \<^verbatim>\<open>get_properties\<close> is bound and the other four names are not.\<close>

definition properties_globals :: "account globals" where
  "properties_globals =
     \<lparr>wait_for_new_inst = None, connection_global = None, desired_capacity_global = None,
      wait_for_elb = None,
      get_properties = Some (\<lambda>g. Inr [(''name'', name g), (''min_size'', PInt (min_size g)),
                                       (''max_size'', PInt (max_size g)),
                                       (''desired_capacity'', PInt (desired_capacity g))])\<rparr>"

text \<open>The parameters of a copy of \<^verbatim>\<open>asg-prod\<close> to \<^verbatim>\<open>asg-prod-copy\<close>.\<close>

definition copy_params :: params where
  "copy_params =
     [''source_asg_name'' \<mapsto> PStr ''asg-prod'', ''group_name'' \<mapsto> PStr ''asg-prod-copy'',
      ''launch_config_name'' \<mapsto> PStr ''lc-new'']"

text \<open>
  Two variants of the provider: one whose lookup of launch configurations ignores the
  names it is given, and one that accepts a group without recording it yet.
\<close>

definition lenient_provider :: "account provider" where
  "lenient_provider =
     memory_provider\<lparr>get_all_launch_configurations :=
       (\<lambda>s names. Inr (launch_configurations_of s))\<rparr>"

definition lagging_provider :: "account provider" where
  "lagging_provider = memory_provider\<lparr>create_auto_scaling_group := (\<lambda>s ag. Inr s)\<rparr>"

text \<open>
  An environment for \<^verbatim>\<open>main()\<close>: the constructor refuses an argument that the
  specification does not declare and a required one that is missing, and otherwise yields
  the arguments as \<^verbatim>\<open>module.params\<close>.
\<close>

definition check_arguments :: "(string \<times> bool) list \<Rightarrow> (string \<times> pyval) list \<Rightarrow> string + params" where
  "check_arguments spec args =
     (if \<exists>k \<in> fst ` set args. k \<notin> fst ` set spec then Inl ''unsupported parameter''
      else if \<exists>k \<in> fst ` set (filter snd spec). k \<notin> fst ` set args
           then Inl ''missing required arguments''
      else Inr (map_of args))"

definition sample_env :: main_env where
  "sample_env =
     \<lparr>ec2_argument_spec = [(''region'', False), (''profile'', False), (''validate_certs'', False)],
      AnsibleModule = check_arguments,
      HAS_BOTO = True,
      get_aws_connection_info = (\<lambda>ps. (params_get ps ''region'', PNone, Map.empty)),
      connect_to_aws = (\<lambda>svc region ps. Inr True)\<rparr>"

definition sample_args :: "(string \<times> pyval) list" where
  "sample_args =
     [(''region'', PStr ''us-east-1''), (''source_asg_name'', PStr ''asg-prod''),
      (''name'', PStr ''asg-prod-copy'')]"

section \<open>The calls of the loop\<close>

text \<open>
  The shapes the log of one run of the loop can have, for the source name \<open>src\<close> and the
  name \<open>nn\<close> of the new group: it ends after a policy that was rejected, after an alarm
  lookup that failed or found nothing, after an alarm that was rejected, or goes on.
\<close>

inductive loop_calls :: "pyval \<Rightarrow> pyval \<Rightarrow> call list \<Rightarrow> bool" for src nn where
  loop_done: "loop_calls src nn []"
| loop_policy: "as_group p = nn \<Longrightarrow> loop_calls src nn [CreateScalingPolicy p]"
| loop_lookup:
    "as_group p = nn \<Longrightarrow>
     loop_calls src nn
       [CreateScalingPolicy p,
        DescribeAlarms [if scaling_adjustment p > 0 then py_format src @ ''-ScaleUp''
                        else py_format src @ ''-ScaleDown'']]"
| loop_alarm:
    "as_group p = nn \<Longrightarrow> map_of (dimensions a) ''AutoScalingGroupName'' = Some nn \<Longrightarrow>
     loop_calls src nn cs \<Longrightarrow>
     loop_calls src nn
       (CreateScalingPolicy p #
        DescribeAlarms [if scaling_adjustment p > 0 then py_format src @ ''-ScaleUp''
                        else py_format src @ ''-ScaleDown''] #
        CreateAlarm a # cs)"

code_pred loop_calls .

section \<open>Facts about single calls\<close>

lemmas model_defs =
  copy_auto_scaling_group_def create_and_copy_def wait_calls_def new_group_def params_get_def
  as_get_all_groups_def as_get_all_policies_def as_get_all_launch_configurations_def
  as_create_auto_scaling_group_def as_create_scaling_policy_def cw_describe_alarms_def
  cw_create_alarm_def call_read_def call_write_def Let_def

lemmas sample_defs =
  memory_provider_def prod_account_def copy_params_def properties_globals_def
  unbound_globals_def asg_prod_def policy_up_def policy_down_def alarm_up_def alarm_down_def
  lenient_provider_def lagging_provider_def

lemma wait_calls_calls: "calls (snd (wait_calls G mp gn wt w)) = calls w"
  by (simp add: wait_calls_def split: option.splits prod.splits sum.splits)

lemma call_read_result: "call_read c r w = (x, w') \<Longrightarrow> calls w' = calls w @ [c]"
  by (auto simp: call_read_def)

lemma call_write_result: "call_write c r w = (x, w') \<Longrightarrow> calls w' = calls w @ [c]"
  by (auto simp: call_write_def split: sum.splits)

lemma copy_policies_calls:
  "\<exists>cs. calls (snd (copy_policies P src nn ps w)) = calls w @ cs \<and> loop_calls src nn cs"
proof (induction ps arbitrary: w)
  case Nil
  show ?case by (simp add: loop_done)
next
  case (Cons policy0 rest)
  define policy where "policy = policy0\<lparr>as_group := nn\<rparr>"
  define an where "an = (if scaling_adjustment policy > 0 then py_format src @ ''-ScaleUp''
                        else py_format src @ ''-ScaleDown'')"
  have grp: "as_group policy = nn" by (simp add: policy_def)
  obtain r1 w1 where s1: "as_create_scaling_policy P policy w = (r1, w1)" by force
  have c1: "calls w1 = calls w @ [CreateScalingPolicy policy]"
    using s1 by (auto simp: as_create_scaling_policy_def dest: call_write_result)
  show ?case
  proof (cases r1)
    case (Inl e)
    then show ?thesis using s1 c1 grp loop_policy [of policy nn src]
      by (simp add: policy_def Let_def)
  next
    case r1: (Inr u)
    obtain r2 w2 where s2: "cw_describe_alarms P [an] w1 = (r2, w2)" by force
    have c2: "calls w2 = calls w @ [CreateScalingPolicy policy, DescribeAlarms [an]]"
      using s2 c1 by (auto simp: cw_describe_alarms_def dest: call_read_result)
    have lk: "loop_calls src nn [CreateScalingPolicy policy, DescribeAlarms [an]]"
      unfolding an_def using grp by (rule loop_lookup)
    show ?thesis
    proof (cases r2)
      case (Inl e)
      then show ?thesis using s1 r1 s2 c2 lk
        by (simp add: policy_def [symmetric] an_def [symmetric] Let_def)
    next
      case r2: (Inr alarms)
      show ?thesis
      proof (cases alarms)
        case Nil
        then show ?thesis using s1 r1 s2 r2 c2 lk
          by (simp add: policy_def [symmetric] an_def [symmetric] Let_def)
      next
        case (Cons alarm0 others)
        define alarm where "alarm = alarm0\<lparr>dimensions :=
              AList.update ''AutoScalingGroupName'' nn (dimensions alarm0)\<rparr>"
        have dim: "map_of (dimensions alarm) ''AutoScalingGroupName'' = Some nn"
          by (simp add: alarm_def update_conv')
        obtain r3 w3 where s3: "cw_create_alarm P alarm w2 = (r3, w3)" by force
        have c3: "calls w3 = calls w @ [CreateScalingPolicy policy, DescribeAlarms [an], CreateAlarm alarm]"
          using s3 c2 by (auto simp: cw_create_alarm_def dest: call_write_result)
        show ?thesis
        proof (cases r3)
          case (Inl e)
          have "loop_calls src nn [CreateScalingPolicy policy, DescribeAlarms [an], CreateAlarm alarm]"
            unfolding an_def using grp dim loop_done by (rule loop_alarm)
          then show ?thesis using Inl s1 r1 s2 r2 Cons s3 c3
            by (simp add: policy_def [symmetric] an_def [symmetric] alarm_def [symmetric] Let_def)
        next
          case r3: (Inr u3)
          from Cons.IH [of w3] obtain cs where
            cs: "calls (snd (copy_policies P src nn rest w3)) = calls w3 @ cs" "loop_calls src nn cs"
            by blast
          have "loop_calls src nn (CreateScalingPolicy policy # DescribeAlarms [an] # CreateAlarm alarm # cs)"
            unfolding an_def using grp dim cs(2) by (rule loop_alarm)
          then show ?thesis using r3 s1 r1 s2 r2 Cons s3 c3 cs(1)
            by (simp add: policy_def [symmetric] an_def [symmetric] alarm_def [symmetric] Let_def)
        qed
      qed
    qed
  qed
qed



lemma loop_calls_no_group: "loop_calls src nn cs \<Longrightarrow> CreateAutoScalingGroup ag \<notin> set cs"
  by (induction rule: loop_calls.induct) auto

lemma loop_calls_no_configuration:
  "loop_calls src nn cs \<Longrightarrow> GetAllLaunchConfigurations ns \<notin> set cs"
  by (induction rule: loop_calls.induct) auto

lemma loop_calls_next:
  "loop_calls src nn cs \<Longrightarrow> cs = xs @ CreateScalingPolicy p # c # ys \<Longrightarrow>
   c = DescribeAlarms [if scaling_adjustment p > 0 then py_format src @ ''-ScaleUp''
                       else py_format src @ ''-ScaleDown'']"
proof (induction arbitrary: xs rule: loop_calls.induct)
  case loop_done
  then show ?case by simp
next
  case (loop_policy q)
  then show ?case by (cases xs) auto
next
  case (loop_lookup q)
  then show ?case by (auto simp: Cons_eq_append_conv)
next
  case (loop_alarm q a cs)
  then show ?case by (auto simp: Cons_eq_append_conv)
qed

lemma loop_calls_previous:
  "loop_calls src nn cs \<Longrightarrow> cs = xs @ DescribeAlarms ns # ys \<Longrightarrow>
   \<exists>zs q. xs = zs @ [CreateScalingPolicy q] \<and>
     ns = [if scaling_adjustment q > 0 then py_format src @ ''-ScaleUp''
           else py_format src @ ''-ScaleDown'']"
proof (induction arbitrary: xs rule: loop_calls.induct)
  case loop_done
  then show ?case by simp
next
  case (loop_policy q)
  then show ?case by (cases xs) auto
next
  case (loop_lookup q)
  then have "xs = [] @ [CreateScalingPolicy q] \<and>
      ns = [if scaling_adjustment q > 0 then py_format src @ ''-ScaleUp''
            else py_format src @ ''-ScaleDown'']"
    by (auto simp: Cons_eq_append_conv split del: if_split)
  then show ?case by blast
next
  case (loop_alarm q a cs)
  from loop_alarm.prems consider
      (first) "xs = [] @ [CreateScalingPolicy q]"
        "ns = [if scaling_adjustment q > 0 then py_format src @ ''-ScaleUp''
               else py_format src @ ''-ScaleDown'']"
    | (later) xs3 where "xs = CreateScalingPolicy q #
          DescribeAlarms [if scaling_adjustment q > 0 then py_format src @ ''-ScaleUp''
                          else py_format src @ ''-ScaleDown''] # CreateAlarm a # xs3"
        "cs = xs3 @ DescribeAlarms ns # ys"
    by (auto simp: Cons_eq_append_conv split del: if_split)
  then show ?case
  proof cases
    case first
    then show ?thesis by blast
  next
    case later
    from loop_alarm.IH [OF later(2)] obtain zs q' where
      "xs3 = zs @ [CreateScalingPolicy q']"
      "ns = [if scaling_adjustment q' > 0 then py_format src @ ''-ScaleUp''
             else py_format src @ ''-ScaleDown'']" by blast
    then have "xs = (CreateScalingPolicy q #
          DescribeAlarms [if scaling_adjustment q > 0 then py_format src @ ''-ScaleUp''
                          else py_format src @ ''-ScaleDown''] # CreateAlarm a # zs)
          @ [CreateScalingPolicy q'] \<and>
        ns = [if scaling_adjustment q' > 0 then py_format src @ ''-ScaleUp''
             else py_format src @ ''-ScaleDown'']"
      using later(1) by simp
    then show ?thesis by blast
  qed
qed

section \<open>The calls of a run\<close>

lemma call_read_cloud_result: "call_read c r w = (x, w') \<Longrightarrow> cloud w' = cloud w"
  by (auto simp: call_read_def)

lemma call_read_value: "call_read c r w = (Inr a, w') \<Longrightarrow> r = Inr a"
  by (auto simp: call_read_def split: sum.splits)

lemma create_and_copy_calls:
  "\<exists>tail. calls (snd (create_and_copy P G mp sps ag w)) = calls w @ CreateAutoScalingGroup ag # tail \<and>
     (tail = [] \<or> tail = [GetAllGroups [params_get mp ''group_name'']] \<or>
      (\<exists>s' g gs rest. get_all_groups P s' [params_get mp ''group_name''] = Inr (g # gs) \<and>
          tail = GetAllGroups [params_get mp ''group_name''] # rest \<and>
          loop_calls (params_get mp ''source_asg_name'') (name g) rest))"
proof -
  define gn where "gn = params_get mp ''group_name''"
  define src where "src = params_get mp ''source_asg_name''"
  obtain r1 w1 where s1: "as_create_auto_scaling_group P ag w = (r1, w1)" by force
  have c1: "calls w1 = calls w @ [CreateAutoScalingGroup ag]"
    using s1 by (auto simp: as_create_auto_scaling_group_def dest: call_write_result)
  show ?thesis
  proof (cases r1)
    case (Inl e)
    then show ?thesis using s1 c1 by (simp add: create_and_copy_def Let_def)
  next
    case r1: (Inr u1)
    obtain r2 w2 where s2:
      "(if params_get mp ''wait_for_instances'' = PBool True
        then wait_calls G mp gn (params_get mp ''wait_timeout'') w1 else (Inr (), w1)) = (r2, w2)"
      by force
    have c2: "calls w2 = calls w @ [CreateAutoScalingGroup ag]"
      using s2 c1 wait_calls_calls [of G mp gn "params_get mp ''wait_timeout''" w1]
      by (auto split: if_splits)
    show ?thesis
    proof (cases r2)
      case (Inl e)
      then show ?thesis using s1 r1 s2 c2
        by (auto simp add: create_and_copy_def Let_def gn_def split: if_splits)
    next
      case r2: (Inr u2)
      obtain r3 w3 where s3: "as_get_all_groups P [gn] w2 = (r3, w3)" by force
      have c3: "calls w3 = calls w @ [CreateAutoScalingGroup ag, GetAllGroups [gn]]"
        using s3 c2 by (auto simp: as_get_all_groups_def dest: call_read_result)
      show ?thesis
      proof (cases r3)
        case (Inl e)
        then show ?thesis using s1 r1 s2 r2 s3 c3
          by (auto simp add: create_and_copy_def Let_def gn_def split: if_splits)
      next
        case r3: (Inr found)
        have lk: "get_all_groups P (cloud w2) [gn] = Inr found"
          using s3 r3 by (auto simp: as_get_all_groups_def dest: call_read_value)
        show ?thesis
        proof (cases found)
          case Nil
          then show ?thesis using s1 r1 s2 r2 s3 r3 c3
            by (auto simp add: create_and_copy_def Let_def gn_def split: if_splits)
        next
          case (Cons g gs)
          obtain cs where cs:
            "calls (snd (copy_policies P src (name g) sps w3)) = calls w3 @ cs"
            "loop_calls src (name g) cs"
            using copy_policies_calls [of P src "name g" sps w3] by blast
          have t1: "\<exists>s' g' gs' rest. get_all_groups P s' [gn] = Inr (g' # gs') \<and>
              GetAllGroups [gn] # cs = GetAllGroups [gn] # rest \<and> loop_calls src (name g') rest"
            using lk Cons cs(2) by blast
          have "calls (snd (create_and_copy P G mp sps ag w)) = calls w3 \<or>
                calls (snd (create_and_copy P G mp sps ag w)) = calls w3 @ cs"
            using s1 r1 s2 r2 s3 r3 Cons cs(1)
            by (auto simp add: create_and_copy_def Let_def gn_def [symmetric] src_def [symmetric]
                split: option.splits sum.splits prod.splits if_splits)
          then show ?thesis
          proof
            assume "calls (snd (create_and_copy P G mp sps ag w)) = calls w3"
            then have "calls (snd (create_and_copy P G mp sps ag w)) =
                calls w @ CreateAutoScalingGroup ag # [GetAllGroups [gn]]"
              using c3 by simp
            then show ?thesis unfolding gn_def by blast
          next
            assume "calls (snd (create_and_copy P G mp sps ag w)) = calls w3 @ cs"
            then have "calls (snd (create_and_copy P G mp sps ag w)) =
                calls w @ CreateAutoScalingGroup ag # (GetAllGroups [gn] # cs)"
              using c3 by simp
            then show ?thesis using t1 unfolding gn_def src_def by blast
          qed
        qed
      qed
    qed
  qed
qed

lemma handler_snd:
  "snd (case x of (Inl (BotoServerError m), w4) \<Rightarrow> (Inl (FailJson m), w4) | r \<Rightarrow> r) = snd x"
  by (auto split: prod.splits sum.splits failure.splits)

lemma copy_auto_scaling_group_calls:
  "calls (snd (copy_auto_scaling_group P G mp s)) = [GetAllGroups [params_get mp ''source_asg_name'']] \<or>
   calls (snd (copy_auto_scaling_group P G mp s)) =
     [GetAllGroups [params_get mp ''source_asg_name''], GetAllPolicies (params_get mp ''source_asg_name'')] \<or>
   calls (snd (copy_auto_scaling_group P G mp s)) =
     [GetAllGroups [params_get mp ''source_asg_name''], GetAllPolicies (params_get mp ''source_asg_name''),
      GetAllLaunchConfigurations [params_get mp ''launch_config_name'']] \<or>
   (\<exists>source_group lc lcs tail.
      get_all_groups P s [params_get mp ''source_asg_name''] = Inr [source_group] \<and>
      get_all_launch_configurations P s [params_get mp ''launch_config_name''] = Inr (lc # lcs) \<and>
      calls (snd (copy_auto_scaling_group P G mp s)) =
        [GetAllGroups [params_get mp ''source_asg_name''], GetAllPolicies (params_get mp ''source_asg_name''),
         GetAllLaunchConfigurations [params_get mp ''launch_config_name''],
         CreateAutoScalingGroup
           (new_group (params_get mp ''group_name'') (params_get mp ''launch_config_name'') source_group lc)]
        @ tail \<and>
      (tail = [] \<or> tail = [GetAllGroups [params_get mp ''group_name'']] \<or>
       (\<exists>s' g gs rest. get_all_groups P s' [params_get mp ''group_name''] = Inr (g # gs) \<and>
          tail = GetAllGroups [params_get mp ''group_name''] # rest \<and>
          loop_calls (params_get mp ''source_asg_name'') (name g) rest)))"
proof -
  define src where "src = params_get mp ''source_asg_name''"
  define lcn where "lcn = params_get mp ''launch_config_name''"
  define gn where "gn = params_get mp ''group_name''"
  define w0 :: "'a world" where "w0 = \<lparr>cloud = s, calls = []\<rparr>"
  obtain r1 w1 where s1: "as_get_all_groups P [src] w0 = (r1, w1)" by force
  have c1: "calls w1 = [GetAllGroups [src]]" and k1: "cloud w1 = s"
    using s1 by (auto simp: as_get_all_groups_def w0_def dest: call_read_result call_read_cloud_result)
  show ?thesis
  proof (cases r1)
    case (Inl e)
    then show ?thesis using s1 c1
      by (simp add: copy_auto_scaling_group_def Let_def src_def w0_def)
  next
    case r1: (Inr groups)
    have lk1: "get_all_groups P s [src] = Inr groups"
      using s1 r1 by (auto simp: as_get_all_groups_def w0_def dest: call_read_value)
    show ?thesis
    proof (cases "length groups = 1")
      case False
      then show ?thesis using s1 r1 c1
        by (simp add: copy_auto_scaling_group_def Let_def src_def w0_def)
    next
      case True
      then obtain source_group where g: "groups = [source_group]"
        by (cases groups) auto
      obtain r2 w2 where s2: "as_get_all_policies P src w1 = (r2, w2)" by force
      have c2: "calls w2 = [GetAllGroups [src], GetAllPolicies src]" and k2: "cloud w2 = s"
        using s2 c1 k1 by (auto simp: as_get_all_policies_def dest: call_read_result call_read_cloud_result)
      show ?thesis
      proof (cases r2)
        case (Inl e)
        then show ?thesis using s1 r1 g s2 c2
          by (simp add: copy_auto_scaling_group_def Let_def src_def w0_def)
      next
        case r2: (Inr sps)
        obtain r3 w3 where s3: "as_get_all_launch_configurations P [lcn] w2 = (r3, w3)" by force
        have c3: "calls w3 = [GetAllGroups [src], GetAllPolicies src, GetAllLaunchConfigurations [lcn]]"
          and k3: "cloud w3 = s"
          using s3 c2 k2
          by (auto simp: as_get_all_launch_configurations_def dest: call_read_result call_read_cloud_result)
        show ?thesis
        proof (cases r3)
          case (Inl e)
          then show ?thesis using s1 r1 g s2 r2 s3 c3
            by (simp add: copy_auto_scaling_group_def Let_def src_def lcn_def w0_def)
        next
          case r3: (Inr found)
          have lk3: "get_all_launch_configurations P s [lcn] = Inr found"
            using s3 r3 k2
            by (auto simp: as_get_all_launch_configurations_def dest: call_read_value)
          show ?thesis
          proof (cases found)
            case Nil
            then show ?thesis using s1 r1 g s2 r2 s3 r3 c3
              by (simp add: copy_auto_scaling_group_def Let_def src_def lcn_def w0_def)
          next
            case (Cons lc lcs)
            define ag where "ag = new_group gn lcn source_group lc"
            have run: "snd (copy_auto_scaling_group P G mp s) = snd (create_and_copy P G mp sps ag w3)"
              using s1 r1 g s2 r2 s3 r3 Cons
              by (simp add: copy_auto_scaling_group_def Let_def src_def [symmetric] lcn_def [symmetric]
                  gn_def [symmetric] w0_def [symmetric] ag_def [symmetric] handler_snd)
            from create_and_copy_calls [of P G mp sps ag w3]
            obtain tail where tail:
              "calls (snd (create_and_copy P G mp sps ag w3)) = calls w3 @ CreateAutoScalingGroup ag # tail"
              "tail = [] \<or> tail = [GetAllGroups [gn]] \<or>
                (\<exists>s' g gs rest. get_all_groups P s' [gn] = Inr (g # gs) \<and>
                  tail = GetAllGroups [gn] # rest \<and> loop_calls src (name g) rest)"
              unfolding gn_def src_def by blast
            have "get_all_groups P s [src] = Inr [source_group]" using lk1 g by simp
            moreover have "get_all_launch_configurations P s [lcn] = Inr (lc # lcs)"
              using lk3 Cons by simp
            moreover have "calls (snd (copy_auto_scaling_group P G mp s)) =
                [GetAllGroups [src], GetAllPolicies src, GetAllLaunchConfigurations [lcn],
                 CreateAutoScalingGroup ag] @ tail"
              using run tail(1) c3 by simp
            ultimately show ?thesis
              using tail(2) unfolding src_def lcn_def gn_def ag_def by blast
          qed
        qed
      qed
    qed
  qed
qed

lemma split_after_prefix:
  "pre @ rest = xs @ x # ys \<Longrightarrow> x \<notin> set pre \<Longrightarrow> \<exists>xs'. xs = pre @ xs' \<and> rest = xs' @ x # ys"
  by (induction pre arbitrary: xs) (auto simp: Cons_eq_append_conv)

lemma run_prefix_loop:
  "\<exists>pre rest.
     calls (snd (copy_auto_scaling_group P G mp s)) = pre @ rest \<and>
     (\<forall>c \<in> set pre. (\<forall>p. c \<noteq> CreateScalingPolicy p) \<and> (\<forall>ns. c \<noteq> DescribeAlarms ns) \<and>
                     (\<forall>a. c \<noteq> CreateAlarm a)) \<and>
     (rest = [] \<or>
      (\<exists>s' g gs. get_all_groups P s' [params_get mp ''group_name''] = Inr (g # gs) \<and>
         loop_calls (params_get mp ''source_asg_name'') (name g) rest))"
proof -
  let ?cs = "calls (snd (copy_auto_scaling_group P G mp s))"
  let ?ok = "\<lambda>pre. \<forall>c \<in> set pre. (\<forall>p. c \<noteq> CreateScalingPolicy p) \<and>
      (\<forall>ns. c \<noteq> DescribeAlarms ns) \<and> (\<forall>a. c \<noteq> CreateAlarm a)"
  have whole: ?thesis if "?ok ?cs"
  proof -
    have "?cs = ?cs @ [] \<and> ?ok ?cs" using that by simp
    then show ?thesis by blast
  qed
  from copy_auto_scaling_group_calls [of P G mp s]
  consider (short) "?ok ?cs"
    | (long) lc source_group s' g gs rest where
        "get_all_groups P s' [params_get mp ''group_name''] = Inr (g # gs)"
        "?cs = [GetAllGroups [params_get mp ''source_asg_name''],
                GetAllPolicies (params_get mp ''source_asg_name''),
                GetAllLaunchConfigurations [params_get mp ''launch_config_name''],
                CreateAutoScalingGroup
                  (new_group (params_get mp ''group_name'') (params_get mp ''launch_config_name'')
                     source_group lc),
                GetAllGroups [params_get mp ''group_name'']] @ rest"
        "loop_calls (params_get mp ''source_asg_name'') (name g) rest"
  proof (elim disjE exE conjE, goal_cases)
    case 1 then show ?case by simp
  next
    case 2 then show ?case by simp
  next
    case 3 then show ?case by simp
  next
    case 4 then show ?case by simp
  next
    case 5 then show ?case by simp
  next
    case 6 then show ?case by simp
  qed
  then show ?thesis
  proof cases
    case short
    then show ?thesis by (rule whole)
  next
    case long
    have "?ok [GetAllGroups [params_get mp ''source_asg_name''],
                GetAllPolicies (params_get mp ''source_asg_name''),
                GetAllLaunchConfigurations [params_get mp ''launch_config_name''],
                CreateAutoScalingGroup
                  (new_group (params_get mp ''group_name'') (params_get mp ''launch_config_name'')
                     source_group lc),
                GetAllGroups [params_get mp ''group_name'']]" by simp
    with long show ?thesis by blast
  qed
qed

text \<open>A run of \<^verbatim>\<open>main()\<close> makes the calls of the function, or none.\<close>

lemma main_calls:
  "calls (snd (main E P G args s)) = [] \<or>
   (\<exists>ps. AnsibleModule E (argument_spec E) args = Inr ps \<and>
      calls (snd (main E P G args s)) = calls (snd (copy_auto_scaling_group P G ps s)))"
  by (auto simp: main_def Let_def split: sum.splits prod.splits)

section \<open>The example run\<close>

lemma sample_calls:
  "calls (snd (copy_auto_scaling_group memory_provider properties_globals copy_params prod_account)) =
     [GetAllGroups [PStr ''asg-prod''],
      GetAllPolicies (PStr ''asg-prod''),
      GetAllLaunchConfigurations [PStr ''lc-new''],
      CreateAutoScalingGroup
        (new_group (PStr ''asg-prod-copy'') (PStr ''lc-new'') asg_prod (LaunchConfiguration ''lc-new'')),
      GetAllGroups [PStr ''asg-prod-copy''],
      CreateScalingPolicy (policy_up\<lparr>as_group := PStr ''asg-prod-copy''\<rparr>),
      DescribeAlarms [''asg-prod-ScaleUp''],
      CreateAlarm (alarm_up\<lparr>dimensions := [(''AutoScalingGroupName'', PStr ''asg-prod-copy'')]\<rparr>),
      CreateScalingPolicy (policy_down\<lparr>as_group := PStr ''asg-prod-copy''\<rparr>),
      DescribeAlarms [''asg-prod-ScaleDown''],
      CreateAlarm (alarm_down\<lparr>dimensions := [(''AutoScalingGroupName'', PStr ''asg-prod-copy'')]\<rparr>)]"
  by (simp add: model_defs sample_defs)


section \<open>A run that ends on an alarm lookup\<close>

lemma call_read_failed: "call_read c r w = (Inl e, w') \<Longrightarrow> \<exists>m. r = Inl m"
  by (auto simp: call_read_def split: sum.splits)

lemma copy_policies_last_lookup:
  "copy_policies P src nn ps w = (r, w') \<Longrightarrow> length (calls w) < length (calls w') \<Longrightarrow>
   last (calls w') = DescribeAlarms ns \<Longrightarrow> describe_alarms P (cloud w') ns = Inr [] \<Longrightarrow>
   r = Inl IndexError"
proof (induction ps arbitrary: w)
  case Nil
  then show ?case by simp
next
  case (Cons policy0 rest)
  define policy where "policy = policy0\<lparr>as_group := nn\<rparr>"
  define an where "an = (if scaling_adjustment policy > 0 then py_format src @ ''-ScaleUp''
                        else py_format src @ ''-ScaleDown'')"
  obtain r1 w1 where s1: "as_create_scaling_policy P policy w = (r1, w1)" by force
  have c1: "calls w1 = calls w @ [CreateScalingPolicy policy]"
    using s1 by (auto simp: as_create_scaling_policy_def dest: call_write_result)
  show ?case
  proof (cases r1)
    case (Inl e)
    then have "w' = w1" using Cons.prems(1) s1 by (simp add: policy_def Let_def)
    then show ?thesis using Cons.prems(3) c1 by simp
  next
    case r1: (Inr u)
    obtain r2 w2 where s2: "cw_describe_alarms P [an] w1 = (r2, w2)" by force
    have c2: "calls w2 = calls w @ [CreateScalingPolicy policy, DescribeAlarms [an]]"
      and k2: "cloud w2 = cloud w1"
      using s2 c1 by (auto simp: cw_describe_alarms_def dest: call_read_result call_read_cloud_result)
    show ?thesis
    proof (cases r2)
      case (Inl e)
      then have w': "w' = w2" using Cons.prems(1) s1 r1 s2
        by (simp add: policy_def [symmetric] an_def [symmetric] Let_def)
      then have "ns = [an]" using Cons.prems(3) c2 by simp
      moreover have "\<exists>m. describe_alarms P (cloud w1) [an] = Inl m"
        using s2 Inl by (auto simp: cw_describe_alarms_def dest: call_read_failed)
      ultimately show ?thesis using Cons.prems(4) w' k2 by auto
    next
      case r2: (Inr alarms)
      show ?thesis
      proof (cases alarms)
        case Nil
        then show ?thesis using Cons.prems(1) s1 r1 s2 r2
          by (simp add: policy_def [symmetric] an_def [symmetric] Let_def)
      next
        case (Cons alarm0 others)
        define alarm where "alarm = alarm0\<lparr>dimensions :=
              AList.update ''AutoScalingGroupName'' nn (dimensions alarm0)\<rparr>"
        obtain r3 w3 where s3: "cw_create_alarm P alarm w2 = (r3, w3)" by force
        have c3: "calls w3 = calls w @ [CreateScalingPolicy policy, DescribeAlarms [an], CreateAlarm alarm]"
          using s3 c2 by (auto simp: cw_create_alarm_def dest: call_write_result)
        show ?thesis
        proof (cases r3)
          case (Inl e)
          then have "w' = w3" using Cons.prems(1) s1 r1 s2 r2 Cons s3
            by (simp add: policy_def [symmetric] an_def [symmetric] alarm_def [symmetric] Let_def)
          then show ?thesis using Cons.prems(3) c3 by simp
        next
          case r3: (Inr u3)
          have rec: "copy_policies P src nn rest w3 = (r, w')"
            using Cons.prems(1) s1 r1 s2 r2 Cons s3 r3
            by (simp add: policy_def [symmetric] an_def [symmetric] alarm_def [symmetric] Let_def)
          from copy_policies_calls [of P src nn rest w3] rec obtain cs where
            cs: "calls w' = calls w3 @ cs" by auto
          show ?thesis
          proof (cases "cs = []")
            case True
            then show ?thesis using cs c3 Cons.prems(3) by simp
          next
            case False
            then have "length (calls w3) < length (calls w')" using cs by simp
            from Cons.IH [OF rec this Cons.prems(3) Cons.prems(4)] show ?thesis .
          qed
        qed
      qed
    qed
  qed
qed


lemma create_and_copy_last_lookup:
  assumes run: "create_and_copy P G mp sps ag w = (r, w')"
    and before: "\<forall>ns. DescribeAlarms ns \<notin> set (calls w)"
    and last_call: "last (calls w') = DescribeAlarms ns"
    and empty: "describe_alarms P (cloud w') ns = Inr []"
  shows "r = Inl IndexError"
proof -
  define gn where "gn = params_get mp ''group_name''"
  define src where "src = params_get mp ''source_asg_name''"
  obtain r1 w1 where s1: "as_create_auto_scaling_group P ag w = (r1, w1)" by force
  have c1: "calls w1 = calls w @ [CreateAutoScalingGroup ag]"
    using s1 by (auto simp: as_create_auto_scaling_group_def dest: call_write_result)
  show ?thesis
  proof (cases r1)
    case (Inl e)
    then have "w' = w1" using run s1 by (simp add: create_and_copy_def Let_def)
    then show ?thesis using last_call c1 by simp
  next
    case r1: (Inr u1)
    obtain r2 w2 where s2:
      "(if params_get mp ''wait_for_instances'' = PBool True
        then wait_calls G mp gn (params_get mp ''wait_timeout'') w1 else (Inr (), w1)) = (r2, w2)"
      by force
    have c2: "calls w2 = calls w @ [CreateAutoScalingGroup ag]"
      using s2 c1 wait_calls_calls [of G mp gn "params_get mp ''wait_timeout''" w1]
      by (auto split: if_splits)
    show ?thesis
    proof (cases r2)
      case (Inl e)
      then have "w' = w2" using run s1 r1 s2
        by (auto simp add: create_and_copy_def Let_def gn_def split: if_splits)
      then show ?thesis using last_call c2 by simp
    next
      case r2: (Inr u2)
      obtain r3 w3 where s3: "as_get_all_groups P [gn] w2 = (r3, w3)" by force
      have c3: "calls w3 = calls w @ [CreateAutoScalingGroup ag, GetAllGroups [gn]]"
        using s3 c2 by (auto simp: as_get_all_groups_def dest: call_read_result)
      have stop: ?thesis if "w' = w3"
        using that last_call c3 by simp
      show ?thesis
      proof (cases r3)
        case (Inl e)
        then have "w' = w3" using run s1 r1 s2 r2 s3
          by (auto simp add: create_and_copy_def Let_def gn_def split: if_splits)
        then show ?thesis by (rule stop)
      next
        case r3: (Inr found)
        show ?thesis
        proof (cases found)
          case Nil
          then have "w' = w3" using run s1 r1 s2 r2 s3 r3
            by (auto simp add: create_and_copy_def Let_def gn_def split: if_splits)
          then show ?thesis by (rule stop)
        next
          case (Cons g gs)
          obtain r4 w4 where s4: "copy_policies P src (name g) sps w3 = (r4, w4)" by force
          have "w' = w3 \<or> (w' = w4 \<and> (r4 = Inl IndexError \<longrightarrow> r = Inl IndexError))"
            using run s1 r1 s2 r2 s3 r3 Cons s4
            by (auto simp add: create_and_copy_def Let_def gn_def [symmetric] src_def [symmetric]
                split: option.splits sum.splits prod.splits if_splits)
          then show ?thesis
          proof
            assume "w' = w3"
            then show ?thesis by (rule stop)
          next
            assume both: "w' = w4 \<and> (r4 = Inl IndexError \<longrightarrow> r = Inl IndexError)"
            from copy_policies_calls [of P src "name g" sps w3] s4 obtain cs where
              cs: "calls w4 = calls w3 @ cs" by auto
            have "cs \<noteq> []"
            proof
              assume "cs = []"
              then have "last (calls w') = GetAllGroups [gn]" using both cs c3 by simp
              then show False using last_call by simp
            qed
            then have "length (calls w3) < length (calls w4)" using cs by simp
            from copy_policies_last_lookup [OF s4 this] last_call empty both
            show ?thesis by simp
          qed
        qed
      qed
    qed
  qed
qed

lemma handler_index_error:
  "fst x = Inl IndexError \<Longrightarrow>
   fst (case x of (Inl (BotoServerError m), w4) \<Rightarrow> (Inl (FailJson m), w4) | r \<Rightarrow> r) = Inl IndexError"
  by (cases x) auto

lemma copy_auto_scaling_group_last_lookup:
  assumes last_call: "last (calls (snd (copy_auto_scaling_group P G mp s))) = DescribeAlarms ns"
    and empty: "describe_alarms P (cloud (snd (copy_auto_scaling_group P G mp s))) ns = Inr []"
  shows "fst (copy_auto_scaling_group P G mp s) = Inl IndexError"
proof -
  define src where "src = params_get mp ''source_asg_name''"
  define lcn where "lcn = params_get mp ''launch_config_name''"
  define gn where "gn = params_get mp ''group_name''"
  define w0 :: "'a world" where "w0 = \<lparr>cloud = s, calls = []\<rparr>"
  obtain r1 w1 where s1: "as_get_all_groups P [src] w0 = (r1, w1)" by force
  have c1: "calls w1 = [GetAllGroups [src]]"
    using s1 by (auto simp: as_get_all_groups_def w0_def dest: call_read_result)
  have stop1: ?thesis if "snd (copy_auto_scaling_group P G mp s) = w1"
    using that last_call c1 by simp
  show ?thesis
  proof (cases r1)
    case (Inl e)
    then have "snd (copy_auto_scaling_group P G mp s) = w1" using s1
      by (simp add: copy_auto_scaling_group_def Let_def src_def w0_def)
    then show ?thesis by (rule stop1)
  next
    case r1: (Inr groups)
    show ?thesis
    proof (cases "length groups = 1")
      case False
      then have "snd (copy_auto_scaling_group P G mp s) = w1" using s1 r1
        by (simp add: copy_auto_scaling_group_def Let_def src_def w0_def)
      then show ?thesis by (rule stop1)
    next
      case True
      then obtain source_group where g: "groups = [source_group]"
        by (cases groups) auto
      obtain r2 w2 where s2: "as_get_all_policies P src w1 = (r2, w2)" by force
      have c2: "calls w2 = [GetAllGroups [src], GetAllPolicies src]"
        using s2 c1 by (auto simp: as_get_all_policies_def dest: call_read_result)
      show ?thesis
      proof (cases r2)
        case (Inl e)
        then have "snd (copy_auto_scaling_group P G mp s) = w2" using s1 r1 g s2
          by (simp add: copy_auto_scaling_group_def Let_def src_def w0_def)
        then show ?thesis using last_call c2 by simp
      next
        case r2: (Inr sps)
        obtain r3 w3 where s3: "as_get_all_launch_configurations P [lcn] w2 = (r3, w3)" by force
        have c3: "calls w3 = [GetAllGroups [src], GetAllPolicies src, GetAllLaunchConfigurations [lcn]]"
          using s3 c2 by (auto simp: as_get_all_launch_configurations_def dest: call_read_result)
        have stop3: ?thesis if "snd (copy_auto_scaling_group P G mp s) = w3"
          using that last_call c3 by simp
        show ?thesis
        proof (cases r3)
          case (Inl e)
          then have "snd (copy_auto_scaling_group P G mp s) = w3" using s1 r1 g s2 r2 s3
            by (simp add: copy_auto_scaling_group_def Let_def src_def lcn_def w0_def)
          then show ?thesis by (rule stop3)
        next
          case r3: (Inr found)
          show ?thesis
          proof (cases found)
            case Nil
            then have "snd (copy_auto_scaling_group P G mp s) = w3" using s1 r1 g s2 r2 s3 r3
              by (simp add: copy_auto_scaling_group_def Let_def src_def lcn_def w0_def)
            then show ?thesis by (rule stop3)
          next
            case (Cons lc lcs)
            define ag where "ag = new_group gn lcn source_group lc"
            obtain r4 w4 where s4: "create_and_copy P G mp sps ag w3 = (r4, w4)" by force
            have run: "copy_auto_scaling_group P G mp s =
                (case (r4, w4) of (Inl (BotoServerError m), w4) \<Rightarrow> (Inl (FailJson m), w4) | r \<Rightarrow> r)"
              using s1 r1 g s2 r2 s3 r3 Cons s4
              by (simp add: copy_auto_scaling_group_def Let_def src_def [symmetric] lcn_def [symmetric]
                  gn_def [symmetric] w0_def [symmetric] ag_def [symmetric])
            have w4: "snd (copy_auto_scaling_group P G mp s) = w4"
              unfolding run using handler_snd [of "(r4, w4)"] by simp
            have before: "\<forall>ns. DescribeAlarms ns \<notin> set (calls w3)" using c3 by simp
            have "r4 = Inl IndexError"
              using create_and_copy_last_lookup [OF s4 before] last_call empty w4 by simp
            then show ?thesis unfolding run using handler_index_error [of "(r4, w4)"] by simp
          qed
        qed
      qed
    qed
  qed
qed

section \<open>The source group must be found exactly once\<close>

text \<open>
  C5. When the lookup of the source group returns no group or more than one, the run ends
  in \<^verbatim>\<open>fail_json\<close> with the message \<^verbatim>\<open>Unable to find source group <name>\<close>, and the
  lookup is the only call made: no group, policy or alarm is created and the account is
  unchanged.
\<close>

theorem source_not_found_no_creation:
  assumes "get_all_groups P s [params_get module_params ''source_asg_name''] = Inr groups"
    and "length groups \<noteq> 1"
  shows "copy_auto_scaling_group P G module_params s =
           (Inl (FailJson (''Unable to find source group ''
                   @ py_format (params_get module_params ''source_asg_name''))),
            \<lparr>cloud = s, calls = [GetAllGroups [params_get module_params ''source_asg_name'']]\<rparr>)"
  using assms
  by (simp add: copy_auto_scaling_group_def as_get_all_groups_def call_read_def Let_def)

theorem source_not_found_no_creation_witness:
  "copy_auto_scaling_group memory_provider unbound_globals
       (copy_params(''source_asg_name'' \<mapsto> PStr ''asg-test'')) prod_account =
     (Inl (FailJson ''Unable to find source group asg-test''),
      \<lparr>cloud = prod_account, calls = [GetAllGroups [PStr ''asg-test'']]\<rparr>)
   \<and> copy_auto_scaling_group memory_provider unbound_globals copy_params
       (prod_account\<lparr>groups_of := [asg_prod, asg_prod]\<rparr>) =
     (Inl (FailJson ''Unable to find source group asg-prod''),
      \<lparr>cloud = prod_account\<lparr>groups_of := [asg_prod, asg_prod]\<rparr>,
       calls = [GetAllGroups [PStr ''asg-prod'']]\<rparr>)"
  using source_not_found_no_creation [of memory_provider prod_account
      "copy_params(''source_asg_name'' \<mapsto> PStr ''asg-test'')" "[]" unbound_globals]
    source_not_found_no_creation [of memory_provider
      "prod_account\<lparr>groups_of := [asg_prod, asg_prod]\<rparr>"
      copy_params "[asg_prod, asg_prod]" unbound_globals]
  by (simp add: params_get_def sample_defs)

section \<open>The group that is created\<close>



text \<open>
  C9. When the parameter \<^verbatim>\<open>launch_config_name\<close> has a true value, the load balancers of
  the submitted group are the one-element list holding that value, whatever is stored
  under a key \<^verbatim>\<open>load_balancers\<close> (any value \<open>lbs\<close>, or none): line 83 reads the
  override from \<^verbatim>\<open>launch_config_name\<close>.
\<close>

theorem load_balancers_from_launch_config_name:
  assumes "py_truthy (params_get module_params ''launch_config_name'')"
    and "CreateAutoScalingGroup ag \<in>
           set (calls (snd (copy_auto_scaling_group P G (module_params(''load_balancers'' := lbs)) s)))"
  shows "load_balancers ag = [params_get module_params ''launch_config_name'']"
proof -
  have same: "params_get (module_params(''load_balancers'' := lbs)) ''launch_config_name'' =
      params_get module_params ''launch_config_name''"
    by (simp add: params_get_def)
  from copy_auto_scaling_group_calls [of P G "module_params(''load_balancers'' := lbs)" s] assms(2)
  obtain source_group lc where
    "ag = new_group (params_get (module_params(''load_balancers'' := lbs)) ''group_name'')
            (params_get (module_params(''load_balancers'' := lbs)) ''launch_config_name'') source_group lc"
    by (auto dest: loop_calls_no_group)
  then show ?thesis using assms(1) by (simp add: same new_group_def)
qed

theorem load_balancers_from_launch_config_name_witness:
  "py_truthy (params_get copy_params ''launch_config_name'') \<and>
   CreateAutoScalingGroup
     (new_group (PStr ''asg-prod-copy'') (PStr ''lc-new'') asg_prod (LaunchConfiguration ''lc-new''))
     \<in> set (calls (snd (copy_auto_scaling_group memory_provider properties_globals
                          (copy_params(''load_balancers'' \<mapsto> PStr ''elb-other'')) prod_account))) \<and>
   load_balancers
     (new_group (PStr ''asg-prod-copy'') (PStr ''lc-new'') asg_prod (LaunchConfiguration ''lc-new''))
     = [PStr ''lc-new'']"
proof -
  let ?ag = "new_group (PStr ''asg-prod-copy'') (PStr ''lc-new'') asg_prod (LaunchConfiguration ''lc-new'')"
  have t: "py_truthy (params_get copy_params ''launch_config_name'')"
    by (simp add: params_get_def copy_params_def)
  have h: "CreateAutoScalingGroup ?ag \<in>
      set (calls (snd (copy_auto_scaling_group memory_provider properties_globals
                         (copy_params(''load_balancers'' := Some (PStr ''elb-other''))) prod_account)))"
    by (simp add: model_defs sample_defs)
  from load_balancers_from_launch_config_name [OF t h]
  have "load_balancers ?ag = [params_get copy_params ''launch_config_name'']" .
  then have "load_balancers ?ag = [PStr ''lc-new'']"
    by (simp add: params_get_def copy_params_def)
  with t h show ?thesis by blast
qed

section \<open>Policies and alarms\<close>



text \<open>
  C4. In the log of a run, the call that follows the creation of a policy is the lookup of
  the alarm named \<^verbatim>\<open><source>-ScaleUp\<close> when the policy's scaling adjustment is
  greater than zero and \<^verbatim>\<open><source>-ScaleDown\<close> otherwise; and every alarm lookup of the
  run directly follows the creation of a policy and asks for that policy's name.
\<close>

theorem alarm_name_follows_adjustment:
  "(\<forall>xs p c ys.
      calls (snd (copy_auto_scaling_group P G module_params s)) = xs @ CreateScalingPolicy p # c # ys \<longrightarrow>
      c = DescribeAlarms
            [if scaling_adjustment p > 0
             then py_format (params_get module_params ''source_asg_name'') @ ''-ScaleUp''
             else py_format (params_get module_params ''source_asg_name'') @ ''-ScaleDown'']) \<and>
   (\<forall>xs ns ys.
      calls (snd (copy_auto_scaling_group P G module_params s)) = xs @ DescribeAlarms ns # ys \<longrightarrow>
      (\<exists>zs q. xs = zs @ [CreateScalingPolicy q] \<and>
         ns = [if scaling_adjustment q > 0
               then py_format (params_get module_params ''source_asg_name'') @ ''-ScaleUp''
               else py_format (params_get module_params ''source_asg_name'') @ ''-ScaleDown'']))"
proof -
  let ?cs = "calls (snd (copy_auto_scaling_group P G module_params s))"
  let ?src = "params_get module_params ''source_asg_name''"
  from run_prefix_loop [of P G module_params s] obtain pre rest where
    cs: "?cs = pre @ rest"
    and pre: "\<forall>c \<in> set pre. (\<forall>p. c \<noteq> CreateScalingPolicy p) \<and> (\<forall>ns. c \<noteq> DescribeAlarms ns) \<and>
                     (\<forall>a. c \<noteq> CreateAlarm a)"
    and rest: "rest = [] \<or> (\<exists>s' g gs.
         get_all_groups P s' [params_get module_params ''group_name''] = Inr (g # gs) \<and>
         loop_calls ?src (name g) rest)"
    by blast
  have "\<exists>nn. loop_calls ?src nn rest" using rest loop_done by blast
  then obtain nn where loop: "loop_calls ?src nn rest" ..
  have next_call: "c = DescribeAlarms [if scaling_adjustment p > 0 then py_format ?src @ ''-ScaleUp''
                       else py_format ?src @ ''-ScaleDown'']"
    if "?cs = xs @ CreateScalingPolicy p # c # ys" for xs p c ys
  proof -
    have notin: "CreateScalingPolicy p \<notin> set pre" using pre by blast
    have eq: "pre @ rest = xs @ CreateScalingPolicy p # c # ys" using that cs by simp
    from split_after_prefix [OF eq notin]
    obtain xs' where "rest = xs' @ CreateScalingPolicy p # c # ys" by blast
    with loop show ?thesis by (rule loop_calls_next)
  qed
  have previous: "\<exists>zs q. xs = zs @ [CreateScalingPolicy q] \<and>
         ns = [if scaling_adjustment q > 0 then py_format ?src @ ''-ScaleUp''
               else py_format ?src @ ''-ScaleDown'']"
    if "?cs = xs @ DescribeAlarms ns # ys" for xs ns ys
  proof -
    have notin: "DescribeAlarms ns \<notin> set pre" using pre by blast
    have eq: "pre @ rest = xs @ DescribeAlarms ns # ys" using that cs by simp
    from split_after_prefix [OF eq notin]
    obtain xs' where xs': "xs = pre @ xs'" "rest = xs' @ DescribeAlarms ns # ys" by blast
    from loop_calls_previous [OF loop xs'(2)] obtain zs q where
      "xs' = zs @ [CreateScalingPolicy q]"
      "ns = [if scaling_adjustment q > 0 then py_format ?src @ ''-ScaleUp''
               else py_format ?src @ ''-ScaleDown'']" by blast
    then have "xs = (pre @ zs) @ [CreateScalingPolicy q] \<and>
      ns = [if scaling_adjustment q > 0 then py_format ?src @ ''-ScaleUp''
               else py_format ?src @ ''-ScaleDown'']" using xs'(1) by simp
    then show ?thesis by blast
  qed
  show ?thesis using next_call previous by blast
qed

theorem alarm_name_follows_adjustment_witness:
  "0 < scaling_adjustment (policy_up\<lparr>as_group := PStr ''asg-prod-copy''\<rparr>) \<and>
   \<not> 0 < scaling_adjustment (policy_down\<lparr>as_group := PStr ''asg-prod-copy''\<rparr>) \<and>
   calls (snd (copy_auto_scaling_group memory_provider properties_globals copy_params prod_account)) ! 5
     = CreateScalingPolicy (policy_up\<lparr>as_group := PStr ''asg-prod-copy''\<rparr>) \<and>
   calls (snd (copy_auto_scaling_group memory_provider properties_globals copy_params prod_account)) ! 6
     = DescribeAlarms [''asg-prod-ScaleUp''] \<and>
   calls (snd (copy_auto_scaling_group memory_provider properties_globals copy_params prod_account)) ! 8
     = CreateScalingPolicy (policy_down\<lparr>as_group := PStr ''asg-prod-copy''\<rparr>) \<and>
   calls (snd (copy_auto_scaling_group memory_provider properties_globals copy_params prod_account)) ! 9
     = DescribeAlarms [''asg-prod-ScaleDown'']"
proof -
  let ?cs = "calls (snd (copy_auto_scaling_group memory_provider properties_globals copy_params
                          prod_account))"
  let ?up = "policy_up\<lparr>as_group := PStr ''asg-prod-copy''\<rparr>"
  let ?down = "policy_down\<lparr>as_group := PStr ''asg-prod-copy''\<rparr>"
  have up: "?cs = take 5 ?cs @ CreateScalingPolicy ?up # (?cs ! 6) # drop 7 ?cs"
    by (simp add: sample_calls)
  have down: "?cs = take 8 ?cs @ CreateScalingPolicy ?down # (?cs ! 9) # drop 10 ?cs"
    by (simp add: sample_calls)
  have src: "py_format (params_get copy_params ''source_asg_name'') = ''asg-prod''"
    by (simp add: params_get_def copy_params_def)
  have pos: "0 < scaling_adjustment ?up" and neg: "\<not> 0 < scaling_adjustment ?down"
    by (simp_all add: policy_up_def policy_down_def)
  from alarm_name_follows_adjustment [of memory_provider properties_globals copy_params prod_account]
  have nxt: "\<And>xs p c ys. ?cs = xs @ CreateScalingPolicy p # c # ys \<Longrightarrow>
      c = DescribeAlarms
            [if scaling_adjustment p > 0
             then py_format (params_get copy_params ''source_asg_name'') @ ''-ScaleUp''
             else py_format (params_get copy_params ''source_asg_name'') @ ''-ScaleDown'']"
    by blast
  have "?cs ! 6 = DescribeAlarms [''asg-prod-ScaleUp'']"
    using nxt [OF up] pos by (simp add: src)
  moreover have "?cs ! 9 = DescribeAlarms [''asg-prod-ScaleDown'']"
    using nxt [OF down] neg by (simp add: src)
  moreover have "?cs ! 5 = CreateScalingPolicy ?up" and "?cs ! 8 = CreateScalingPolicy ?down"
    by (simp_all add: sample_calls)
  ultimately show ?thesis using pos neg by blast
qed

section \<open>A rejected creation\<close>

text \<open>
  C6. When the source group and a launch configuration are found and the provider rejects
  the creation of the group with the message \<open>m\<close>, the run ends in
  \<^verbatim>\<open>fail_json(msg=m)\<close>; the log holds the three lookups and the rejected creation, so
  no policy and no alarm is created, and the account is unchanged.
\<close>

theorem rejected_creation_fails_without_copies:
  assumes "get_all_groups P s [params_get module_params ''source_asg_name''] = Inr [source_group]"
    and "get_all_policies P s (params_get module_params ''source_asg_name'') = Inr source_policies"
    and "get_all_launch_configurations P s [params_get module_params ''launch_config_name'']
           = Inr (lc # lcs)"
    and "create_auto_scaling_group P s
           (new_group (params_get module_params ''group_name'')
              (params_get module_params ''launch_config_name'') source_group lc) = Inl m"
  shows "copy_auto_scaling_group P G module_params s =
           (Inl (FailJson m),
            \<lparr>cloud = s,
             calls = [GetAllGroups [params_get module_params ''source_asg_name''],
                      GetAllPolicies (params_get module_params ''source_asg_name''),
                      GetAllLaunchConfigurations [params_get module_params ''launch_config_name''],
                      CreateAutoScalingGroup
                        (new_group (params_get module_params ''group_name'')
                           (params_get module_params ''launch_config_name'') source_group lc)]\<rparr>)"
proof -
  let ?src = "params_get module_params ''source_asg_name''"
  let ?lcn = "params_get module_params ''launch_config_name''"
  let ?ag = "new_group (params_get module_params ''group_name'') ?lcn source_group lc"
  have a1: "as_get_all_groups P [?src] \<lparr>cloud = s, calls = []\<rparr> =
      (Inr [source_group], \<lparr>cloud = s, calls = [GetAllGroups [?src]]\<rparr>)"
    using assms(1) by (simp add: as_get_all_groups_def call_read_def)
  have a2: "as_get_all_policies P ?src \<lparr>cloud = s, calls = [GetAllGroups [?src]]\<rparr> =
      (Inr source_policies, \<lparr>cloud = s, calls = [GetAllGroups [?src], GetAllPolicies ?src]\<rparr>)"
    using assms(2) by (simp add: as_get_all_policies_def call_read_def)
  have a3: "as_get_all_launch_configurations P [?lcn]
        \<lparr>cloud = s, calls = [GetAllGroups [?src], GetAllPolicies ?src]\<rparr> =
      (Inr (lc # lcs), \<lparr>cloud = s, calls = [GetAllGroups [?src], GetAllPolicies ?src,
          GetAllLaunchConfigurations [?lcn]]\<rparr>)"
    using assms(3) by (simp add: as_get_all_launch_configurations_def call_read_def)
  have a4: "create_and_copy P G module_params source_policies ?ag
        \<lparr>cloud = s, calls = [GetAllGroups [?src], GetAllPolicies ?src,
          GetAllLaunchConfigurations [?lcn]]\<rparr> =
      (Inl (BotoServerError m), \<lparr>cloud = s, calls = [GetAllGroups [?src], GetAllPolicies ?src,
          GetAllLaunchConfigurations [?lcn], CreateAutoScalingGroup ?ag]\<rparr>)"
    using assms(4)
    by (simp add: create_and_copy_def as_create_auto_scaling_group_def call_write_def Let_def)
  show ?thesis
    by (simp add: copy_auto_scaling_group_def Let_def a1 a2 a3 a4)
qed

theorem rejected_creation_fails_without_copies_witness:
  "copy_auto_scaling_group memory_provider properties_globals
     (copy_params(''group_name'' \<mapsto> PStr ''asg-prod'')) prod_account =
   (Inl (FailJson ''AlreadyExists''),
    \<lparr>cloud = prod_account,
     calls = [GetAllGroups [PStr ''asg-prod''], GetAllPolicies (PStr ''asg-prod''),
              GetAllLaunchConfigurations [PStr ''lc-new''],
              CreateAutoScalingGroup
                (new_group (PStr ''asg-prod'') (PStr ''lc-new'') asg_prod
                   (LaunchConfiguration ''lc-new''))]\<rparr>)"
  using rejected_creation_fails_without_copies [of memory_provider prod_account
      "copy_params(''group_name'' \<mapsto> PStr ''asg-prod'')" asg_prod "[policy_up, policy_down]"
      "LaunchConfiguration ''lc-new''" "[]" "''AlreadyExists''" properties_globals]
  by (simp add: params_get_def sample_defs new_group_def)

section \<open>Element zero of a lookup\<close>

text \<open>
  C8. With the source group found, the three later lookups take element zero without a
  check: when the lookup of the launch configuration returns the empty list the run ends
  in \<^verbatim>\<open>IndexError\<close>; when it returns one or more (\<open>lc # lcs\<close>), the first is used, and
  then, the group being accepted and no wait asked for, an empty result of the second
  lookup of groups ends the run in \<^verbatim>\<open>IndexError\<close>, while a result of one or more
  (\<open>as_group_found # others\<close>) lets the loop start, where an empty result of the first
  alarm lookup ends the run in \<^verbatim>\<open>IndexError\<close>. At any policy of the loop, a run whose
  last call is an alarm lookup that returns the empty list ends in \<^verbatim>\<open>IndexError\<close>. In
  no case is the end a \<^verbatim>\<open>fail_json\<close>.
\<close>

theorem element_zero_is_unguarded:
  assumes groups: "get_all_groups P s [params_get module_params ''source_asg_name''] = Inr [source_group]"
    and policies: "get_all_policies P s (params_get module_params ''source_asg_name'') = Inr source_policies"
  shows
    "(get_all_launch_configurations P s [params_get module_params ''launch_config_name''] = Inr [] \<longrightarrow>
        fst (copy_auto_scaling_group P G module_params s) = Inl IndexError) \<and>
     (\<forall>lc lcs s1.
        get_all_launch_configurations P s [params_get module_params ''launch_config_name'']
          = Inr (lc # lcs) \<and>
        create_auto_scaling_group P s
          (new_group (params_get module_params ''group_name'')
             (params_get module_params ''launch_config_name'') source_group lc) = Inr s1 \<and>
        params_get module_params ''wait_for_instances'' \<noteq> PBool True \<longrightarrow>
        (get_all_groups P s1 [params_get module_params ''group_name''] = Inr [] \<longrightarrow>
           fst (copy_auto_scaling_group P G module_params s) = Inl IndexError) \<and>
        (\<forall>as_group_found others props asg_properties policy0 rest s2.
           get_all_groups P s1 [params_get module_params ''group_name'']
             = Inr (as_group_found # others) \<and>
           get_properties G = Some props \<and> props as_group_found = Inr asg_properties \<and>
           source_policies = policy0 # rest \<and>
           create_scaling_policy P s1 (policy0\<lparr>as_group := name as_group_found\<rparr>) = Inr s2 \<and>
           describe_alarms P s2
             [if scaling_adjustment policy0 > 0
              then py_format (params_get module_params ''source_asg_name'') @ ''-ScaleUp''
              else py_format (params_get module_params ''source_asg_name'') @ ''-ScaleDown''] = Inr [] \<longrightarrow>
           fst (copy_auto_scaling_group P G module_params s) = Inl IndexError)) \<and>
     (\<forall>ns.
        last (calls (snd (copy_auto_scaling_group P G module_params s))) = DescribeAlarms ns \<and>
        describe_alarms P (cloud (snd (copy_auto_scaling_group P G module_params s))) ns = Inr [] \<longrightarrow>
        fst (copy_auto_scaling_group P G module_params s) = Inl IndexError)"
proof -
  let ?src = "params_get module_params ''source_asg_name''"
  let ?lcn = "params_get module_params ''launch_config_name''"
  let ?gn = "params_get module_params ''group_name''"
  let ?w2 = "\<lparr>cloud = s, calls = [GetAllGroups [?src], GetAllPolicies ?src]\<rparr>"
  let ?w3 = "\<lparr>cloud = s, calls = [GetAllGroups [?src], GetAllPolicies ?src,
                                    GetAllLaunchConfigurations [?lcn]]\<rparr>"
  have a1: "as_get_all_groups P [?src] \<lparr>cloud = s, calls = []\<rparr> =
      (Inr [source_group], \<lparr>cloud = s, calls = [GetAllGroups [?src]]\<rparr>)"
    using groups by (simp add: as_get_all_groups_def call_read_def)
  have a2: "as_get_all_policies P ?src \<lparr>cloud = s, calls = [GetAllGroups [?src]]\<rparr> =
      (Inr source_policies, ?w2)"
    using policies by (simp add: as_get_all_policies_def call_read_def)
  have none: "fst (copy_auto_scaling_group P G module_params s) = Inl IndexError"
    if "get_all_launch_configurations P s [?lcn] = Inr []"
  proof -
    have "as_get_all_launch_configurations P [?lcn] ?w2 = (Inr [], ?w3)"
      using that by (simp add: as_get_all_launch_configurations_def call_read_def)
    then show ?thesis by (simp add: copy_auto_scaling_group_def Let_def a1 a2)
  qed
  have found: "copy_auto_scaling_group P G module_params s =
      (case create_and_copy P G module_params source_policies
              (new_group ?gn ?lcn source_group lc) ?w3 of
         (Inl (BotoServerError m), w4) \<Rightarrow> (Inl (FailJson m), w4)
       | r \<Rightarrow> r)"
    if "get_all_launch_configurations P s [?lcn] = Inr (lc # lcs)" for lc lcs
  proof -
    have "as_get_all_launch_configurations P [?lcn] ?w2 = (Inr (lc # lcs), ?w3)"
      using that by (simp add: as_get_all_launch_configurations_def call_read_def)
    then show ?thesis by (simp add: copy_auto_scaling_group_def Let_def a1 a2)
  qed
  have refetch_none: "fst (copy_auto_scaling_group P G module_params s) = Inl IndexError"
    if "get_all_launch_configurations P s [?lcn] = Inr (lc # lcs)"
      and "create_auto_scaling_group P s (new_group ?gn ?lcn source_group lc) = Inr s1"
      and "params_get module_params ''wait_for_instances'' \<noteq> PBool True"
      and "get_all_groups P s1 [?gn] = Inr []"
    for lc lcs s1
    using that(2-4)
    by (simp add: found [OF that(1)] create_and_copy_def as_create_auto_scaling_group_def
        as_get_all_groups_def call_read_def call_write_def Let_def)
  have alarm_none: "fst (copy_auto_scaling_group P G module_params s) = Inl IndexError"
    if "get_all_launch_configurations P s [?lcn] = Inr (lc # lcs)"
      and "create_auto_scaling_group P s (new_group ?gn ?lcn source_group lc) = Inr s1"
      and "params_get module_params ''wait_for_instances'' \<noteq> PBool True"
      and "get_all_groups P s1 [?gn] = Inr (g # gs)"
      and "get_properties G = Some props" and "props g = Inr asg_properties"
      and "source_policies = policy0 # rest"
      and "create_scaling_policy P s1 (policy0\<lparr>as_group := name g\<rparr>) = Inr s2"
      and "describe_alarms P s2
             [if scaling_adjustment policy0 > 0 then py_format ?src @ ''-ScaleUp''
              else py_format ?src @ ''-ScaleDown''] = Inr []"
    for lc lcs s1 g gs props asg_properties policy0 rest s2
    using that(2-9)
    by (simp add: found [OF that(1)] create_and_copy_def as_create_auto_scaling_group_def
        as_get_all_groups_def as_create_scaling_policy_def cw_describe_alarms_def
        call_read_def call_write_def Let_def)
  have any_alarm: "fst (copy_auto_scaling_group P G module_params s) = Inl IndexError"
    if "last (calls (snd (copy_auto_scaling_group P G module_params s))) = DescribeAlarms ns"
      and "describe_alarms P (cloud (snd (copy_auto_scaling_group P G module_params s))) ns = Inr []"
    for ns
    using that by (rule copy_auto_scaling_group_last_lookup)
  show ?thesis
    using none refetch_none alarm_none any_alarm by blast
qed

theorem element_zero_is_unguarded_witness:
  "fst (copy_auto_scaling_group memory_provider properties_globals
          (copy_params(''launch_config_name'' \<mapsto> PStr ''lc-test'')) prod_account) = Inl IndexError \<and>
   fst (copy_auto_scaling_group lagging_provider properties_globals copy_params prod_account)
     = Inl IndexError \<and>
   fst (copy_auto_scaling_group memory_provider properties_globals copy_params
          (prod_account\<lparr>alarms_of := []\<rparr>)) = Inl IndexError \<and>
   last (calls (snd (copy_auto_scaling_group memory_provider properties_globals copy_params
                       (prod_account\<lparr>alarms_of := [alarm_up]\<rparr>))))
     = DescribeAlarms [''asg-prod-ScaleDown''] \<and>
   fst (copy_auto_scaling_group memory_provider properties_globals copy_params
          (prod_account\<lparr>alarms_of := [alarm_up]\<rparr>)) = Inl IndexError"
proof -
  let ?lc = "LaunchConfiguration ''lc-new''"
  let ?ag = "new_group (PStr ''asg-prod-copy'') (PStr ''lc-new'') asg_prod ?lc"
  let ?one = "prod_account\<lparr>alarms_of := [alarm_up]\<rparr>"
  have first: "fst (copy_auto_scaling_group memory_provider properties_globals
          (copy_params(''launch_config_name'' \<mapsto> PStr ''lc-test'')) prod_account) = Inl IndexError"
    using element_zero_is_unguarded [of memory_provider prod_account
        "copy_params(''launch_config_name'' \<mapsto> PStr ''lc-test'')" asg_prod
        "[policy_up, policy_down]" properties_globals]
    by (simp add: params_get_def sample_defs)
  have second: "fst (copy_auto_scaling_group lagging_provider properties_globals copy_params
          prod_account) = Inl IndexError"
    using element_zero_is_unguarded [of lagging_provider prod_account copy_params asg_prod
        "[policy_up, policy_down]" properties_globals,
        THEN conjunct2, THEN conjunct1, rule_format, of ?lc "[]" prod_account, THEN conjunct1]
    by (simp add: params_get_def sample_defs new_group_def)
  have third: "fst (copy_auto_scaling_group memory_provider properties_globals copy_params
          (prod_account\<lparr>alarms_of := []\<rparr>)) = Inl IndexError"
    using element_zero_is_unguarded [of memory_provider "prod_account\<lparr>alarms_of := []\<rparr>"
        copy_params asg_prod "[policy_up, policy_down]" properties_globals,
        THEN conjunct2, THEN conjunct1, rule_format, of ?lc "[]"
          "prod_account\<lparr>alarms_of := [], groups_of := [asg_prod, ?ag]\<rparr>",
        THEN conjunct2, rule_format, of ?ag "[]" _ _ policy_up "[policy_down]"
          "prod_account\<lparr>alarms_of := [], groups_of := [asg_prod, ?ag],
             policies_of := [policy_up, policy_down,
                             policy_up\<lparr>as_group := PStr ''asg-prod-copy''\<rparr>]\<rparr>"]
    by (simp add: params_get_def sample_defs new_group_def)
  have ended: "snd (copy_auto_scaling_group memory_provider properties_globals copy_params ?one) =
      \<lparr>cloud = prod_account\<lparr>
         alarms_of := [alarm_up,
                       alarm_up\<lparr>dimensions := [(''AutoScalingGroupName'', PStr ''asg-prod-copy'')]\<rparr>],
         groups_of := [asg_prod, ?ag],
         policies_of := [policy_up, policy_down,
                         policy_up\<lparr>as_group := PStr ''asg-prod-copy''\<rparr>,
                         policy_down\<lparr>as_group := PStr ''asg-prod-copy''\<rparr>]\<rparr>,
       calls =
         [GetAllGroups [PStr ''asg-prod''], GetAllPolicies (PStr ''asg-prod''),
          GetAllLaunchConfigurations [PStr ''lc-new''], CreateAutoScalingGroup ?ag,
          GetAllGroups [PStr ''asg-prod-copy''],
          CreateScalingPolicy (policy_up\<lparr>as_group := PStr ''asg-prod-copy''\<rparr>),
          DescribeAlarms [''asg-prod-ScaleUp''],
          CreateAlarm (alarm_up\<lparr>dimensions := [(''AutoScalingGroupName'', PStr ''asg-prod-copy'')]\<rparr>),
          CreateScalingPolicy (policy_down\<lparr>as_group := PStr ''asg-prod-copy''\<rparr>),
          DescribeAlarms [''asg-prod-ScaleDown'']]\<rparr>"
    by (simp add: model_defs sample_defs)
  have last_call: "last (calls (snd (copy_auto_scaling_group memory_provider properties_globals
        copy_params ?one))) = DescribeAlarms [''asg-prod-ScaleDown'']"
    by (simp add: ended)
  have empty: "describe_alarms memory_provider
      (cloud (snd (copy_auto_scaling_group memory_provider properties_globals copy_params ?one)))
      [''asg-prod-ScaleDown''] = Inr []"
    by (simp add: ended) (simp add: sample_defs)
  have fourth: "fst (copy_auto_scaling_group memory_provider properties_globals copy_params ?one)
      = Inl IndexError"
    using element_zero_is_unguarded [of memory_provider ?one copy_params asg_prod
        "[policy_up, policy_down]" properties_globals,
        THEN conjunct2, THEN conjunct2, rule_format, of "[''asg-prod-ScaleDown'']"]
      last_call empty
    by (simp add: params_get_def sample_defs)
  from first second third last_call fourth show ?thesis by blast
qed

section \<open>The parameters that main declares\<close>

text \<open>
  C10. \<^verbatim>\<open>main()\<close> declares the keys of the common specification and \<^verbatim>\<open>region\<close>,
  \<^verbatim>\<open>source_asg_name\<close> and \<^verbatim>\<open>name\<close>. When \<^verbatim>\<open>module.params\<close> holds declared keys only and
  the common specification declares none of \<^verbatim>\<open>group_name\<close>, \<^verbatim>\<open>launch_config_name\<close>,
  \<^verbatim>\<open>wait_for_instances\<close> and \<^verbatim>\<open>wait_timeout\<close>, the function reads \<^verbatim>\<open>None\<close> under each of
  the four; every group a run of \<^verbatim>\<open>main()\<close> submits has the name \<^verbatim>\<open>None\<close>, which is no
  string the caller supplied, and every lookup of a launch configuration asks for the
  name \<^verbatim>\<open>None\<close>.
\<close>

theorem declared_parameters_leave_names_unset:
  assumes declared:
      "\<forall>spec given ps. AnsibleModule E spec given = Inr ps \<longrightarrow> dom ps \<subseteq> fst ` set spec"
    and common:
      "{''group_name'', ''launch_config_name'', ''wait_for_instances'', ''wait_timeout''}
         \<inter> fst ` set (ec2_argument_spec E) = {}"
  shows
    "(\<forall>ps. AnsibleModule E (argument_spec E) args = Inr ps \<longrightarrow>
        params_get ps ''group_name'' = PNone \<and> params_get ps ''launch_config_name'' = PNone \<and>
        params_get ps ''wait_for_instances'' = PNone \<and> params_get ps ''wait_timeout'' = PNone) \<and>
     (\<forall>ag. CreateAutoScalingGroup ag \<in> set (calls (snd (main E P G args s))) \<longrightarrow>
        name ag = PNone \<and> (\<forall>n. name ag \<noteq> PStr n)) \<and>
     (\<forall>ns. GetAllLaunchConfigurations ns \<in> set (calls (snd (main E P G args s))) \<longrightarrow>
        ns = [PNone])"
proof -
  have keys: "fst ` set (argument_spec E) =
      {''name'', ''source_asg_name'', ''region''} \<union> fst ` set (ec2_argument_spec E)"
    by (auto simp: argument_spec_def dom_update)
  have unset: "params_get ps ''group_name'' = PNone \<and> params_get ps ''launch_config_name'' = PNone \<and>
        params_get ps ''wait_for_instances'' = PNone \<and> params_get ps ''wait_timeout'' = PNone"
    if "AnsibleModule E (argument_spec E) args = Inr ps" for ps
  proof -
    have sub: "dom ps \<subseteq> fst ` set (argument_spec E)"
      using declared that by blast
    have out: "''group_name'' \<notin> fst ` set (argument_spec E)"
      "''launch_config_name'' \<notin> fst ` set (argument_spec E)"
      "''wait_for_instances'' \<notin> fst ` set (argument_spec E)"
      "''wait_timeout'' \<notin> fst ` set (argument_spec E)"
      using common by (simp_all add: keys)
    have absent: "ps k = None" if "k \<notin> fst ` set (argument_spec E)" for k
      using sub that by (meson domIff subsetD)
    show ?thesis by (simp add: params_get_def absent out)
  qed
  have group: "name ag = PNone \<and> (\<forall>n. name ag \<noteq> PStr n)"
    if "CreateAutoScalingGroup ag \<in> set (calls (snd (main E P G args s)))" for ag
  proof -
    from main_calls [of E P G args s] that obtain ps where
      ps: "AnsibleModule E (argument_spec E) args = Inr ps"
      and "CreateAutoScalingGroup ag \<in> set (calls (snd (copy_auto_scaling_group P G ps s)))"
      by auto
    with copy_auto_scaling_group_calls [of P G ps s] obtain source_group lc where
      "ag = new_group (params_get ps ''group_name'') (params_get ps ''launch_config_name'')
              source_group lc"
      by (auto dest: loop_calls_no_group)
    then show ?thesis using unset [OF ps] by (simp add: new_group_def)
  qed
  have config: "ns = [PNone]"
    if "GetAllLaunchConfigurations ns \<in> set (calls (snd (main E P G args s)))" for ns
  proof -
    from main_calls [of E P G args s] that obtain ps where
      ps: "AnsibleModule E (argument_spec E) args = Inr ps"
      and "GetAllLaunchConfigurations ns \<in> set (calls (snd (copy_auto_scaling_group P G ps s)))"
      by auto
    with copy_auto_scaling_group_calls [of P G ps s]
    have "ns = [params_get ps ''launch_config_name'']"
      by (auto dest: loop_calls_no_configuration)
    then show ?thesis using unset [OF ps] by simp
  qed
  show ?thesis using unset group config by blast
qed

theorem declared_parameters_leave_names_unset_witness:
  "{''group_name'', ''launch_config_name'', ''wait_for_instances'', ''wait_timeout''}
     \<inter> fst ` set (ec2_argument_spec sample_env) = {} \<and>
   AnsibleModule sample_env (argument_spec sample_env) sample_args = Inr (map_of sample_args) \<and>
   params_get (map_of sample_args) ''group_name'' = PNone \<and>
   params_get (map_of sample_args) ''launch_config_name'' = PNone \<and>
   CreateAutoScalingGroup (new_group PNone PNone asg_prod (LaunchConfiguration ''lc-old''))
     \<in> set (calls (snd (main sample_env lenient_provider properties_globals sample_args prod_account))) \<and>
   name (new_group PNone PNone asg_prod (LaunchConfiguration ''lc-old'')) = PNone \<and>
   GetAllLaunchConfigurations [PNone]
     \<in> set (calls (snd (main sample_env lenient_provider properties_globals sample_args prod_account)))"
proof -
  let ?ag = "new_group PNone PNone asg_prod (LaunchConfiguration ''lc-old'')"
  let ?cs = "calls (snd (main sample_env lenient_provider properties_globals sample_args prod_account))"
  have declared: "\<forall>spec given ps. AnsibleModule sample_env spec given = Inr ps \<longrightarrow>
      dom ps \<subseteq> fst ` set spec"
    by (auto simp: sample_env_def check_arguments_def dom_map_of_conv_image_fst split: if_splits)
  have common: "{''group_name'', ''launch_config_name'', ''wait_for_instances'', ''wait_timeout''}
     \<inter> fst ` set (ec2_argument_spec sample_env) = {}"
    by (simp add: sample_env_def)
  have given: "AnsibleModule sample_env (argument_spec sample_env) sample_args = Inr (map_of sample_args)"
    by (simp add: sample_env_def argument_spec_def check_arguments_def sample_args_def)
  have run: "?cs =
      [GetAllGroups [PStr ''asg-prod''], GetAllPolicies (PStr ''asg-prod''),
       GetAllLaunchConfigurations [PNone], CreateAutoScalingGroup ?ag, GetAllGroups [PNone],
       CreateScalingPolicy (policy_up\<lparr>as_group := PNone\<rparr>),
       DescribeAlarms [''asg-prod-ScaleUp''],
       CreateAlarm (alarm_up\<lparr>dimensions := [(''AutoScalingGroupName'', PNone)]\<rparr>),
       CreateScalingPolicy (policy_down\<lparr>as_group := PNone\<rparr>),
       DescribeAlarms [''asg-prod-ScaleDown''],
       CreateAlarm (alarm_down\<lparr>dimensions := [(''AutoScalingGroupName'', PNone)]\<rparr>)]"
    by (simp add: main_def sample_env_def argument_spec_def check_arguments_def sample_args_def
        model_defs sample_defs)
  have made: "CreateAutoScalingGroup ?ag \<in> set ?cs" and asked: "GetAllLaunchConfigurations [PNone] \<in> set ?cs"
    by (simp_all add: run)
  note inst = declared_parameters_leave_names_unset [OF declared common,
      of sample_args lenient_provider properties_globals prod_account]
  from inst given have "params_get (map_of sample_args) ''group_name'' = PNone"
    and "params_get (map_of sample_args) ''launch_config_name'' = PNone"
    by blast+
  moreover from inst made have "name ?ag = PNone" by blast
  ultimately show ?thesis using common given made asked by blast
qed

section \<open>Where the function departs from its description\<close>

text \<open>
  C1. Without an override the new group is to have the source group's load balancers. In
  the example the parameters have no key \<^verbatim>\<open>load_balancers\<close>, the source group's load
  balancers are \<^verbatim>\<open>['elb-prod']\<close>, and the group submitted, the fourth call of the run, has
  the load balancers \<^verbatim>\<open>['lc-new']\<close>, the name of the launch configuration.
\<close>

theorem load_balancers_not_inherited:
  "copy_params ''load_balancers'' = None \<and>
   get_all_groups memory_provider prod_account [params_get copy_params ''source_asg_name'']
     = Inr [asg_prod] \<and>
   load_balancers asg_prod = [PStr ''elb-prod''] \<and>
   (\<exists>ag. calls (snd (copy_auto_scaling_group memory_provider properties_globals copy_params
                        prod_account)) ! 3 = CreateAutoScalingGroup ag \<and>
         load_balancers ag = [PStr ''lc-new''])"
proof -
  have "copy_params ''load_balancers'' = None"
    by (simp add: copy_params_def)
  moreover have "get_all_groups memory_provider prod_account
      [params_get copy_params ''source_asg_name''] = Inr [asg_prod]"
    by (simp add: params_get_def sample_defs)
  moreover have "load_balancers asg_prod = [PStr ''elb-prod'']"
    by (simp add: asg_prod_def)
  moreover have "calls (snd (copy_auto_scaling_group memory_provider properties_globals copy_params
      prod_account)) ! 3 =
      CreateAutoScalingGroup
        (new_group (PStr ''asg-prod-copy'') (PStr ''lc-new'') asg_prod (LaunchConfiguration ''lc-new''))"
    by (simp add: sample_calls)
  moreover have "load_balancers
      (new_group (PStr ''asg-prod-copy'') (PStr ''lc-new'') asg_prod (LaunchConfiguration ''lc-new''))
      = [PStr ''lc-new'']"
    by (simp add: new_group_def)
  ultimately show ?thesis by blast
qed

text \<open>
  C7. With \<^verbatim>\<open>wait_for_instances\<close> true the function is to wait for the instances and the
  load balancers, or to time out. In the example, with the globals as the file leaves
  them, the run ends in \<^verbatim>\<open>NameError\<close> on \<^verbatim>\<open>wait_for_new_inst\<close> right after the group is
  created: nothing is waited for, and no policy or alarm is copied.
\<close>

theorem wait_for_instances_raises_name_error:
  "copy_auto_scaling_group memory_provider unbound_globals
     (copy_params(''wait_for_instances'' \<mapsto> PBool True, ''wait_timeout'' \<mapsto> PInt 300)) prod_account =
   (Inl (NameError ''wait_for_new_inst''),
    \<lparr>cloud = prod_account\<lparr>groups_of :=
        [asg_prod,
         new_group (PStr ''asg-prod-copy'') (PStr ''lc-new'') asg_prod (LaunchConfiguration ''lc-new'')]\<rparr>,
     calls = [GetAllGroups [PStr ''asg-prod''], GetAllPolicies (PStr ''asg-prod''),
              GetAllLaunchConfigurations [PStr ''lc-new''],
              CreateAutoScalingGroup
                (new_group (PStr ''asg-prod-copy'') (PStr ''lc-new'') asg_prod
                   (LaunchConfiguration ''lc-new''))]\<rparr>)"
  by (simp add: model_defs sample_defs)

end
